theory Spec2Isabelle
  imports Main
begin

section \<open>Values exchanged with the collaborators\<close>

text \<open>
  Instants are what \<^verbatim>\<open>Date.prototype.valueOf()\<close> returns: milliseconds since the epoch.
  A timestamp column holds such an instant or null; an ISO string written by
  \<^verbatim>\<open>toISOString()\<close> and parsed back by \<^verbatim>\<open>new Date(str)\<close> denotes the same instant.
\<close>

type_synonym timestamp = int

text \<open>The bodies passed to \<^verbatim>\<open>res.status(n).json(body)\<close>.\<close>

datatype json =
    JNull
  | JBool bool
  | JNum int
  | JStr string
  | JDate timestamp
  | JObj "(string \<times> json) list"

record http_response =
  status_code :: nat
  body :: json

definition respond :: "nat \<Rightarrow> (string \<times> json) list \<Rightarrow> http_response" where
  "respond n kvs = \<lparr>status_code = n, body = JObj kvs\<rparr>"

text \<open>Reading a property of a response body; \<open>None\<close> is JavaScript's \<^verbatim>\<open>undefined\<close>.\<close>

definition field :: "string \<Rightarrow> http_response \<Rightarrow> json option" where
  "field k r = (case body r of JObj kvs \<Rightarrow> map_of kvs k | _ \<Rightarrow> None)"

definition json_of_string_option :: "string option \<Rightarrow> json" where
  "json_of_string_option v = (case v of None \<Rightarrow> JNull | Some s \<Rightarrow> JStr s)"

definition json_of_timestamp_option :: "timestamp option \<Rightarrow> json" where
  "json_of_timestamp_option v = (case v of None \<Rightarrow> JNull | Some t \<Rightarrow> JDate t)"

text \<open>
  What the store client resolves to when a statement does not succeed: the \<^verbatim>\<open>error\<close>
  member of \<^verbatim>\<open>{ data, error }\<close>. The client never throws; a statement that could not be
  executed (transport, permission, constraint) comes back as such an error.
\<close>

record pg_error =
  pg_code :: string
  pg_message :: string

definition PGRST116 :: pg_error where
  "PGRST116 = \<lparr>pg_code = ''PGRST116'', pg_message = ''JSON object requested, multiple (or no) rows returned''\<rparr>"

text \<open>
  \<^verbatim>\<open>.single()\<close>: the only row of the result, or the error PGRST116 when the result has
  no row or several. The first argument is the failure the store reports for the whole
  statement, if any.
\<close>

definition single :: "pg_error option \<Rightarrow> 'a list \<Rightarrow> pg_error + 'a" where
  "single fault rs =
     (case fault of
        Some e \<Rightarrow> Inl e
      | None \<Rightarrow> (case rs of [r] \<Rightarrow> Inr r | _ \<Rightarrow> Inl PGRST116))"

text \<open>A query parameter or body member that may be missing; \<^verbatim>\<open>!v\<close> in the handlers.\<close>

definition falsy :: "string option \<Rightarrow> bool" where
  "falsy v = (case v of None \<Rightarrow> True | Some s \<Rightarrow> s = [])"

section \<open>The user directory (table \<^verbatim>\<open>user\<close>)\<close>

record user_row =
  uid :: string
  email :: string
  is_premium :: bool
  premium_expires_at :: "timestamp option"
  stripe_customer_id :: "string option"

text \<open>
  The directory and the number of \<^verbatim>\<open>update\<close> statements the handlers have sent to it.
\<close>

record directory =
  users :: "user_row list"
  updates_sent :: nat

definition select_user_by_id :: "pg_error option \<Rightarrow> directory \<Rightarrow> string \<Rightarrow> pg_error + user_row" where
  "select_user_by_id fault db u = single fault (filter (\<lambda>r. uid r = u) (users db))"

definition select_user_by_email :: "pg_error option \<Rightarrow> directory \<Rightarrow> string \<Rightarrow> pg_error + user_row" where
  "select_user_by_email fault db e = single fault (filter (\<lambda>r. email r = e) (users db))"

text \<open>
  \<^verbatim>\<open>.from("user").update(fields).eq("id", u)\<close>: every row whose id is \<open>u\<close> gets the fields;
  no matching row is not an error. A statement the store rejects changes nothing.
\<close>

definition update_user ::
  "pg_error option \<Rightarrow> directory \<Rightarrow> string \<Rightarrow> (user_row \<Rightarrow> user_row) \<Rightarrow> pg_error option \<times> directory" where
  "update_user fault db u f =
     (case fault of
        Some e \<Rightarrow> (Some e, db\<lparr>updates_sent := Suc (updates_sent db)\<rparr>)
      | None \<Rightarrow>
          (None, db\<lparr>users := map (\<lambda>r. if uid r = u then f r else r) (users db),
                     updates_sent := Suc (updates_sent db)\<rparr>))"

section \<open>Entitlement resolver: \<^verbatim>\<open>pages/api/users/premium-status.js\<close>\<close>

text \<open>
  Strings are sequences of UTF-16 code units below 256, so the accented letters of the
  messages are single characters.
\<close>

abbreviation e_acute :: char where "e_acute \<equiv> CHR 0xE9"
abbreviation a_grave :: char where "a_grave \<equiv> CHR 0xE0"

definition premium_status_response :: "bool \<Rightarrow> timestamp option \<Rightarrow> timestamp \<Rightarrow> string \<Rightarrow> http_response" where
  "premium_status_response isPremium expirationInfo checked_at userId =
     respond 200
       [(''is_premium'', JBool isPremium),
        (''premium_expires_at'', json_of_timestamp_option expirationInfo),
        (''checked_at'', JDate checked_at),
        (''user_id'', JStr userId)]"

text \<open>
  The body of the \<^verbatim>\<open>try\<close> block once \<^verbatim>\<open>userId\<close> is known to be a non-empty string.
  \<open>read_fault\<close> and \<open>write_fault\<close> are what the store reports for the select and for the
  update of this request; \<open>now\<close> is the clock read before the comparison and
  \<open>checked_at\<close> the one read for the response. The column \<^verbatim>\<open>is_premium\<close> is a boolean
  (\<^verbatim>\<open>|| false\<close> only replaces a null), and a non-null \<^verbatim>\<open>premium_expires_at\<close> is a
  non-empty string, hence truthy.
\<close>

definition premium_status_of ::
  "pg_error option \<Rightarrow> pg_error option \<Rightarrow> timestamp \<Rightarrow> timestamp \<Rightarrow> directory \<Rightarrow> string \<Rightarrow>
   http_response \<times> directory" where
  "premium_status_of read_fault write_fault now checked_at db userId =
     (case select_user_by_id read_fault db userId of
        Inl error \<Rightarrow>
          (if pg_code error = ''PGRST116'' then
             (respond 404 [(''error'', JStr (''Utilisateur non trouv'' @ [e_acute])),
                           (''userId'', JStr userId)], db)
           else
             (respond 500 [(''error'', JStr (''Erreur serveur lors de la v'' @ [e_acute] @ ''rification du statut'')),
                           (''details'', JStr (pg_message error))], db))
      | Inr userData \<Rightarrow>
          (let isPremium = is_premium userData;
               expirationInfo = premium_expires_at userData
           in case (if isPremium then premium_expires_at userData else None) of
                Some expiresAt \<Rightarrow>
                  (if now > expiresAt then
                     (let (updateError, db') =
                            update_user write_fault db userId (\<lambda>r. r\<lparr>is_premium := False\<rparr>)
                      in (premium_status_response False expirationInfo checked_at userId, db'))
                   else (premium_status_response isPremium expirationInfo checked_at userId, db))
              | None \<Rightarrow> (premium_status_response isPremium expirationInfo checked_at userId, db)))"

definition premium_status_handler ::
  "pg_error option \<Rightarrow> pg_error option \<Rightarrow> timestamp \<Rightarrow> timestamp \<Rightarrow> directory \<Rightarrow>
   string \<Rightarrow> string option \<Rightarrow> http_response \<times> directory" where
  "premium_status_handler read_fault write_fault now checked_at db method userId =
     (if method \<noteq> ''GET'' then
        (respond 405 [(''message'', JStr ''Method not allowed''), (''allowed'', JStr ''GET''),
                      (''received'', JStr method)], db)
      else
        (case userId of
           Some u \<Rightarrow>
             (if u \<noteq> [] then premium_status_of read_fault write_fault now checked_at db u
              else (respond 400 [(''error'', JStr ''ID utilisateur requis''),
                                 (''parameter'', JStr ''userId'')], db))
         | None \<Rightarrow> (respond 400 [(''error'', JStr ''ID utilisateur requis''),
                                  (''parameter'', JStr ''userId'')], db)))"

section \<open>Date arithmetic of the runtime\<close>

text \<open>
  ECMAScript's abstract operations on time values. \<open>tza t isUTC\<close> is the host's
  \<^verbatim>\<open>LocalTZA(t, isUTC)\<close>, the offset of local time from UTC in milliseconds.
\<close>

definition msPerDay :: int where
  "msPerDay = 86400000"

definition Day :: "timestamp \<Rightarrow> int" where
  "Day t = t div msPerDay"

definition TimeWithinDay :: "timestamp \<Rightarrow> int" where
  "TimeWithinDay t = t mod msPerDay"

definition LocalTime :: "(timestamp \<Rightarrow> bool \<Rightarrow> int) \<Rightarrow> timestamp \<Rightarrow> timestamp" where
  "LocalTime tza t = t + tza t True"

definition UTC :: "(timestamp \<Rightarrow> bool \<Rightarrow> int) \<Rightarrow> timestamp \<Rightarrow> timestamp" where
  "UTC tza t = t - tza t False"

text \<open>
  \<^verbatim>\<open>d.setDate(d.getDate() + n)\<close>. With \<open>t = LocalTime d\<close>, the runtime stores
  \<^verbatim>\<open>UTC(MakeDate(MakeDay(YearFromTime(t), MonthFromTime(t), DateFromTime(t) + n), TimeWithinDay(t)))\<close>,
  and \<^verbatim>\<open>MakeDay(y, m, dt)\<close> is the day number of the first day of month \<open>m\<close> of year \<open>y\<close>
  plus \<open>dt - 1\<close>. The first day of the month of \<open>t\<close> has day number
  \<open>Day t - (DateFromTime t - 1)\<close>, so the day number handed to \<^verbatim>\<open>MakeDate\<close> is \<open>Day t + n\<close>.
\<close>

definition setDate_getDate_plus :: "(timestamp \<Rightarrow> bool \<Rightarrow> int) \<Rightarrow> timestamp \<Rightarrow> int \<Rightarrow> timestamp" where
  "setDate_getDate_plus tza d n =
     (let t = LocalTime tza d;
          newDate = (Day t + n) * msPerDay + TimeWithinDay t
      in UTC tza newDate)"

section \<open>Payment confirmation: \<^verbatim>\<open>pages/api/checkout-sessions/[session_id].js\<close>\<close>

text \<open>The processor's checkout session, as far as the handlers read it.\<close>

record checkout_session =
  session_id :: string
  payment_status :: string
  customer_email :: "string option"
  customer :: "string option"
  amount_total :: "int option"
  currency :: "string option"
  metadata :: "(string \<times> string) list"

definition json_of_int_option :: "int option \<Rightarrow> json" where
  "json_of_int_option v = (case v of None \<Rightarrow> JNull | Some n \<Rightarrow> JNum n)"

definition session_summary :: "checkout_session \<Rightarrow> (string \<times> json) list" where
  "session_summary session =
     [(''id'', JStr (session_id session)),
      (''payment_status'', JStr (payment_status session)),
      (''customer_email'', json_of_string_option (customer_email session))]"

text \<open>
  Lines 89 to 113: \<^verbatim>\<open>session.metadata?.user_id\<close>, then the lookup by customer email when
  that is falsy and the session has an email. The lookup keeps the metadata value when it
  finds no single row.
\<close>

definition resolve_user :: "pg_error option \<Rightarrow> directory \<Rightarrow> checkout_session \<Rightarrow> string option" where
  "resolve_user read_fault db session =
     (let userId = map_of (metadata session) ''user_id'' in
      if falsy userId \<and> \<not> falsy (customer_email session) then
        (case customer_email session of
           Some e \<Rightarrow>
             (case select_user_by_email read_fault db e of
                Inr userData \<Rightarrow> Some (uid userData)
              | Inl _ \<Rightarrow> userId)
         | None \<Rightarrow> userId)
      else userId)"

definition user_not_found_response :: "checkout_session \<Rightarrow> http_response" where
  "user_not_found_response session =
     respond 200
       [(''status'', JStr ''complete''),
        (''session'', JObj (session_summary session @
           [(''amount_total'', json_of_int_option (amount_total session))])),
        (''user_updated'', JBool False),
        (''error'', JStr (''Utilisateur non trouv'' @ [e_acute])),
        (''message'', JStr (''Paiement confirm'' @ [e_acute] @ '' mais utilisateur non identifi'' @ [e_acute]))]"

text \<open>Lines 116 to 182: the branch \<^verbatim>\<open>if (userId)\<close> for a non-empty \<open>userId\<close>.\<close>

definition activate ::
  "(timestamp \<Rightarrow> bool \<Rightarrow> int) \<Rightarrow> pg_error option \<Rightarrow> timestamp \<Rightarrow> directory \<Rightarrow>
   checkout_session \<Rightarrow> string \<Rightarrow> http_response \<times> directory" where
  "activate tza write_fault now db session userId =
     (let premiumExpiresAt = setDate_getDate_plus tza now 30;
          (updateError, db') =
             update_user write_fault db userId
               (\<lambda>r. r\<lparr>is_premium := True,
                       premium_expires_at := Some premiumExpiresAt,
                       stripe_customer_id := customer session\<rparr>)
      in case updateError of
           Some e \<Rightarrow>
             (respond 200
                [(''session'', JObj (session_summary session @
                    [(''amount_total'', json_of_int_option (amount_total session))])),
                 (''user_updated'', JBool False),
                 (''error'', JStr (''Erreur lors de la mise '' @ [a_grave] @ '' jour du profil utilisateur'')),
                 (''details'', JStr (pg_message e))], db')
         | None \<Rightarrow>
             (respond 200
                [(''status'', JStr ''complete''),
                 (''session'', JObj (session_summary session @
                    [(''amount_total'', json_of_int_option (amount_total session)),
                     (''currency'', json_of_string_option (currency session))])),
                 (''user_updated'', JBool True),
                 (''user_id'', JStr userId),
                 (''premium_expires_at'', JDate premiumExpiresAt),
                 (''stripe_customer_id'', json_of_string_option (customer session)),
                 (''message'', JStr (''Statut premium activ'' @ [e_acute] @ '' avec succ'' @ [CHR 0xE8] @ ''s''))],
              db'))"

definition confirm_paid ::
  "(timestamp \<Rightarrow> bool \<Rightarrow> int) \<Rightarrow> pg_error option \<Rightarrow> pg_error option \<Rightarrow> timestamp \<Rightarrow> directory \<Rightarrow>
   checkout_session \<Rightarrow> http_response \<times> directory" where
  "confirm_paid tza read_fault write_fault now db session =
     (case resolve_user read_fault db session of
        Some userId \<Rightarrow>
          (if userId \<noteq> [] then activate tza write_fault now db session userId
           else (user_not_found_response session, db))
      | None \<Rightarrow> (user_not_found_response session, db))"

text \<open>
  The handler. \<open>retrieve\<close> is \<^verbatim>\<open>stripe.checkout.sessions.retrieve\<close>: it returns the
  session or throws (\<open>Inl\<close> carries the message of what it threw: unknown session id,
  network failure, processor error). \<open>now\<close> is the clock read on the path taken.
\<close>

definition confirm ::
  "(string \<Rightarrow> string + checkout_session) \<Rightarrow> (timestamp \<Rightarrow> bool \<Rightarrow> int) \<Rightarrow>
   pg_error option \<Rightarrow> pg_error option \<Rightarrow> timestamp \<Rightarrow> directory \<Rightarrow>
   string \<Rightarrow> string option \<Rightarrow> http_response \<times> directory" where
  "confirm retrieve tza read_fault write_fault now db method sid =
     (if method \<noteq> ''GET'' then
        (respond 405 [(''message'', JStr ''Method not allowed''), (''allowed'', JStr ''GET''),
                      (''received'', JStr method)], db)
      else
        (case sid of
           Some s \<Rightarrow>
             (if s \<noteq> [] then
                (case retrieve s of
                   Inr session \<Rightarrow>
                     (if payment_status session = ''paid'' then
                        confirm_paid tza read_fault write_fault now db session
                      else
                        (respond 200
                           [(''status'', JStr ''pending''),
                            (''session'', JObj (session_summary session)),
                            (''user_updated'', JBool False),
                            (''message'', JStr (''Paiement en cours: '' @ payment_status session))], db))
                 | Inl error_message \<Rightarrow>
                     (respond 500
                        [(''status'', JStr ''error''),
                         (''error'', JStr (''Erreur serveur lors de la v'' @ [e_acute] @ ''rification'')),
                         (''details'', JStr error_message),
                         (''session_id'', JStr s),
                         (''timestamp'', JDate now)], db))
              else (respond 400 [(''message'', JStr ''Session ID is required''),
                                 (''parameter'', JStr ''session_id'')], db))
         | None \<Rightarrow> (respond 400 [(''message'', JStr ''Session ID is required''),
                                  (''parameter'', JStr ''session_id'')], db)))"

section \<open>Checkout session creation: \<^verbatim>\<open>pages/api/checkout_sessions.js\<close>\<close>

text \<open>
  The test \<^verbatim>\<open>/^[^\s@]+@[^\s@]+\.[^\s@]+$/\<close>: no white space, exactly one \<^verbatim>\<open>@\<close> with
  something before it, and after it a dot that has something on both sides.
\<close>

definition is_space :: "char \<Rightarrow> bool" where
  "is_space c = (c \<in> set [CHR 0x20, CHR 0x09, CHR 0x0A, CHR 0x0B, CHR 0x0C, CHR 0x0D, CHR 0xA0])"

definition emailRegex_test :: "string \<Rightarrow> bool" where
  "emailRegex_test s =
     (let local_part = takeWhile (\<lambda>c. c \<noteq> CHR ''@'') s;
          domain_part = drop (Suc (length local_part)) s
      in \<not> list_ex is_space s
         \<and> local_part \<noteq> []
         \<and> length local_part < length s
         \<and> \<not> list_ex (\<lambda>c. c = CHR ''@'') domain_part
         \<and> list_ex (\<lambda>i. domain_part ! i = CHR ''.'') [1 ..< length domain_part - 1])"

record line_item =
  li_currency :: string
  li_name :: string
  li_description :: string
  li_unit_amount :: int
  li_quantity :: int

record session_create_params =
  cp_mode :: string
  cp_line_items :: "line_item list"
  cp_metadata :: "(string \<times> string) list"
  cp_customer_email :: string
  cp_success_url :: string
  cp_cancel_url :: string
  cp_payment_method_types :: "string list"
  cp_expires_at :: int

text \<open>
  The argument of \<^verbatim>\<open>stripe.checkout.sessions.create\<close>. \<open>baseUrl\<close> is
  \<^verbatim>\<open>process.env.NEXTAUTH_URL || "http://localhost:3000"\<close>, \<open>now\<close> is \<^verbatim>\<open>Date.now()\<close> and
  \<open>now_iso\<close> the string \<^verbatim>\<open>new Date().toISOString()\<close>.
\<close>

definition session_params :: "string \<Rightarrow> timestamp \<Rightarrow> string \<Rightarrow> string \<Rightarrow> string \<Rightarrow> session_create_params" where
  "session_params baseUrl now now_iso userId userEmail =
     \<lparr>cp_mode = ''payment'',
      cp_line_items =
        [\<lparr>li_currency = ''eur'',
          li_name = ''Application M'' @ [e_acute] @ ''t'' @ [e_acute] @ ''o - Version Premium'',
          li_description = ''Acc'' @ [CHR 0xE8] @ ''s premium pour 30 jours : favoris illimit'' @ [e_acute]
             @ ''s, pr'' @ [e_acute] @ ''visions '' @ [e_acute] @ ''tendues, alertes personnalis''
             @ [e_acute] @ ''es'',
          li_unit_amount = 999,
          li_quantity = 1\<rparr>],
      cp_metadata =
        [(''userId'', userId),
         (''userEmail'', userEmail),
         (''purchaseType'', ''premium_monthly''),
         (''timestamp'', now_iso)],
      cp_customer_email = userEmail,
      cp_success_url = baseUrl @ ''/success?session_id={CHECKOUT_SESSION_ID}'',
      cp_cancel_url = baseUrl @ ''/?cancelled=true'',
      cp_payment_method_types = [''card''],
      cp_expires_at = now div 1000 + 30 * 60\<rparr>"

text \<open>
  The handler up to the call of the processor: the response that rejects the request, or
  the parameters the session is created with.
\<close>

definition checkout_request ::
  "string \<Rightarrow> timestamp \<Rightarrow> string \<Rightarrow> string \<Rightarrow> string option \<Rightarrow> string option \<Rightarrow>
   http_response + session_create_params" where
  "checkout_request baseUrl now now_iso method userId userEmail =
     (if method \<noteq> ''POST'' then
        Inl (respond 405 [(''error'', JStr (''M'' @ [e_acute] @ ''thode non autoris'' @ [e_acute] @ ''e''))])
      else if falsy userId \<or> falsy userEmail then
        Inl (respond 400 [(''error'', JStr ''ID utilisateur et email requis''),
                          (''details'', JStr ''userId et userEmail sont obligatoires'')])
      else
        (case (userId, userEmail) of
           (Some u, Some e) \<Rightarrow>
             (if \<not> emailRegex_test e then
                Inl (respond 400 [(''error'', JStr ''Format email invalide''),
                                  (''details'', JStr ''Veuillez fournir un email valide'')])
              else Inr (session_params baseUrl now now_iso u e))
         | _ \<Rightarrow>
             Inl (respond 400 [(''error'', JStr ''ID utilisateur et email requis''),
                               (''details'', JStr ''userId et userEmail sont obligatoires'')])))"

text \<open>
  What \<^verbatim>\<open>create\<close> throws, by its \<^verbatim>\<open>type\<close> and \<^verbatim>\<open>message\<close>, and what it returns: the id and
  the url of the new session.
\<close>

record stripe_error =
  se_type :: string
  se_message :: string

definition stripe_error_response :: "timestamp \<Rightarrow> stripe_error \<Rightarrow> http_response" where
  "stripe_error_response now error =
     (if se_type error = ''StripeCardError'' then
        respond 400 [(''error'', JStr (''Erreur de carte de cr'' @ [e_acute] @ ''dit'')),
                     (''details'', JStr (se_message error))]
      else if se_type error = ''StripeRateLimitError'' then
        respond 429 [(''error'', JStr (''Trop de requ'' @ [CHR 0xEA] @ ''tes'')),
                     (''details'', JStr (''Veuillez patienter avant de r'' @ [e_acute] @ ''essayer''))]
      else if se_type error = ''StripeInvalidRequestError'' then
        respond 400 [(''error'', JStr (''Requ'' @ [CHR 0xEA] @ ''te invalide'')),
                     (''details'', JStr (se_message error))]
      else if se_type error = ''StripeAPIError'' then
        respond 502 [(''error'', JStr ''Erreur API Stripe''),
                     (''details'', JStr (''Probl'' @ [CHR 0xE8] @ ''me temporaire avec le service de paiement''))]
      else if se_type error = ''StripeConnectionError'' then
        respond 503 [(''error'', JStr ''Erreur de connexion''),
                     (''details'', JStr ''Impossible de contacter le service de paiement'')]
      else if se_type error = ''StripeAuthenticationError'' then
        respond 500 [(''error'', JStr ''Erreur de configuration''),
                     (''details'', JStr (''Probl'' @ [CHR 0xE8] @ ''me de configuration du service de paiement''))]
      else
        respond 500 [(''error'', JStr ''Erreur interne du serveur''),
                     (''details'', JStr (''Une erreur inattendue s'' @ [CHR 0x27] @ ''est produite'')),
                     (''timestamp'', JDate now)])"

definition create_checkout_session ::
  "(session_create_params \<Rightarrow> stripe_error + string \<times> string) \<Rightarrow>
   string \<Rightarrow> timestamp \<Rightarrow> string \<Rightarrow> string \<Rightarrow> string option \<Rightarrow> string option \<Rightarrow> http_response" where
  "create_checkout_session create baseUrl now now_iso method userId userEmail =
     (case checkout_request baseUrl now now_iso method userId userEmail of
        Inl rejected \<Rightarrow> rejected
      | Inr params \<Rightarrow>
          (case create params of
             Inr (sid, url) \<Rightarrow>
               respond 200 [(''url'', JStr url), (''sessionId'', JStr sid),
                            (''message'', JStr (''Session cr'' @ [e_acute] @ [e_acute] @ '' avec succ''
                               @ [CHR 0xE8] @ ''s''))]
           | Inl error \<Rightarrow> stripe_error_response now error))"

text \<open>
  The processor keeps what the session was created with: the session it later returns
  for the same id carries the metadata and the customer email of the parameters.
\<close>

definition created_from :: "session_create_params \<Rightarrow> checkout_session \<Rightarrow> bool" where
  "created_from params session =
     (metadata session = cp_metadata params \<and> customer_email session = Some (cp_customer_email params))"

section \<open>Favorites service: \<^verbatim>\<open>lib/favorisService.js\<close>\<close>

text \<open>
  \<^verbatim>\<open>String.prototype.toLowerCase\<close> on code units below 256: the letters A to Z and the
  accented capitals 0xC0 to 0xDE (0xD7, the multiplication sign, is not a letter) move up
  by 32; nothing else changes.
\<close>

definition is_upper :: "char \<Rightarrow> bool" where
  "is_upper c =
     (let n = (of_char c :: nat)
      in (65 \<le> n \<and> n \<le> 90) \<or> (192 \<le> n \<and> n \<le> 222 \<and> n \<noteq> 215))"

definition lower_of :: "char \<Rightarrow> char" where
  "lower_of c = (if is_upper c then char_of ((of_char c :: nat) + 32) else c)"

definition toLowerCase :: "string \<Rightarrow> string" where
  "toLowerCase s = map lower_of s"

text \<open>
  Two names differ at most in letter case: same length, and at every position either the
  same character or the capital and the small form of one letter.
\<close>

definition same_letter :: "char \<Rightarrow> char \<Rightarrow> bool" where
  "same_letter c d =
     (c = d
      \<or> (is_upper c \<and> (of_char d :: nat) = of_char c + 32)
      \<or> (is_upper d \<and> (of_char c :: nat) = of_char d + 32))"

definition differs_only_in_case :: "string \<Rightarrow> string \<Rightarrow> bool" where
  "differs_only_in_case a b = list_all2 same_letter a b"

text \<open>A row of table \<^verbatim>\<open>favoris\<close>; its column \<^verbatim>\<open>id\<close> holds the owner's user id.\<close>

record favoris_row =
  fr_id :: string
  fr_ville :: string

text \<open>The two refusals of \<^verbatim>\<open>ajouterFavori\<close>: the quota and the duplicate.\<close>

definition QuotaExceeded :: string where
  "QuotaExceeded = ''Limite de 3 favoris atteinte''"

definition Duplicate :: string where
  "Duplicate = ''Cette ville est d'' @ [e_acute] @ ''j'' @ [a_grave] @ '' dans vos favoris''"

text \<open>
  \<^verbatim>\<open>{ data: null, error: msg }\<close> is \<open>Inl msg\<close> and \<^verbatim>\<open>{ data: row, error: null }\<close> is
  \<open>Inr row\<close>. \<open>count_fault\<close> and \<open>insert_fault\<close> are what the store reports for the select
  and for the insert.
\<close>

definition ajouterFavori ::
  "pg_error option \<Rightarrow> pg_error option \<Rightarrow> favoris_row list \<Rightarrow> string \<Rightarrow> string \<Rightarrow>
   (string + favoris_row) \<times> favoris_row list" where
  "ajouterFavori count_fault insert_fault favoris userId ville =
     (case count_fault of
        Some countError \<Rightarrow> (Inl (pg_message countError), favoris)
      | None \<Rightarrow>
          (let existingFavoris = filter (\<lambda>f. fr_id f = userId) favoris in
           if length existingFavoris \<ge> 3 then (Inl QuotaExceeded, favoris)
           else if list_ex (\<lambda>f. toLowerCase (fr_ville f) = toLowerCase ville) existingFavoris
             then (Inl Duplicate, favoris)
           else
             (case insert_fault of
                Some error \<Rightarrow> (Inl (pg_message error), favoris)
              | None \<Rightarrow>
                  (let row = \<lparr>fr_id = userId, fr_ville = ville\<rparr>
                   in (Inr row, favoris @ [row])))))"

section \<open>Favorites API: the \<^verbatim>\<open>POST\<close> branch of the handler on table \<^verbatim>\<open>favorie\<close>\<close>

record favorie_row =
  fav_id :: int
  fav_user_id :: "string option"
  fav_ville :: string
  fav_created_at :: timestamp

definition json_of_favorie :: "favorie_row \<Rightarrow> json" where
  "json_of_favorie r =
     JObj [(''id'', JNum (fav_id r)),
           (''user_id'', json_of_string_option (fav_user_id r)),
           (''ville'', JStr (fav_ville r)),
           (''created_at'', JDate (fav_created_at r))]"

text \<open>A member of an object literal whose value may be \<^verbatim>\<open>undefined\<close>: JSON drops it.\<close>

definition json_member :: "string \<Rightarrow> string option \<Rightarrow> (string \<times> json) list" where
  "json_member k v = (case v of None \<Rightarrow> [] | Some s \<Rightarrow> [(k, JStr s)])"

text \<open>What the store reports for the three statements of a \<^verbatim>\<open>POST\<close>.\<close>

record favoris_faults =
  test_fault :: "pg_error option"
  count_fault :: "pg_error option"
  insert_fault :: "pg_error option"

text \<open>
  Lines 316 to 342: the quota check, made only for a truthy \<^verbatim>\<open>postUserId\<close>. It answers
  with the response that ends the request, or with nothing.
\<close>

definition quota_check :: "pg_error option \<Rightarrow> favorie_row list \<Rightarrow> string option \<Rightarrow> http_response option" where
  "quota_check fault favorie postUserId =
     (if \<not> falsy postUserId then
        (case fault of
           Some countError \<Rightarrow> Some (respond 500 [(''error'', JStr (pg_message countError))])
         | None \<Rightarrow>
             (let existingFavoris = filter (\<lambda>f. fav_user_id f = postUserId) favorie in
              if length existingFavoris \<ge> 3 then
                Some (respond 400 [(''error'', JStr ''Limite de 3 favoris atteinte''),
                                   (''current_count'', JNum (int (length existingFavoris))),
                                   (''max_allowed'', JNum 3)])
              else None))
      else None)"

text \<open>
  Lines 344 to 375. The store gives the new row its \<open>id\<close> and \<open>created_at\<close>
  (\<open>new_id\<close>, \<open>now\<close>); a row the store refuses, for a unique constraint or anything
  else, comes back as \<open>insert_fault\<close>.
\<close>

definition insert_favori ::
  "pg_error option \<Rightarrow> int \<Rightarrow> timestamp \<Rightarrow> favorie_row list \<Rightarrow> string option \<Rightarrow> string \<Rightarrow>
   http_response \<times> favorie_row list" where
  "insert_favori fault new_id now favorie postUserId ville =
     (case fault of
        Some addError \<Rightarrow>
          (if pg_code addError = ''23505'' then
             (respond 400 [(''error'', JStr (''Cette ville est d'' @ [e_acute] @ ''j'' @ [a_grave] @ '' en favoris'')),
                           (''ville'', JStr ville)], favorie)
           else (respond 500 [(''error'', JStr (pg_message addError))], favorie))
      | None \<Rightarrow>
          (let newFavori = \<lparr>fav_id = new_id,
                            fav_user_id = (if \<not> falsy postUserId then postUserId else None),
                            fav_ville = ville,
                            fav_created_at = now\<rparr>
           in (respond 201 [(''data'', json_of_favorie newFavori)], favorie @ [newFavori])))"

definition ville_requise :: "string option \<Rightarrow> string option \<Rightarrow> http_response" where
  "ville_requise postUserId ville =
     respond 400 [(''error'', JStr ''ville requise''),
                  (''received'', JObj (json_member ''postUserId'' postUserId @ json_member ''ville'' ville))]"

definition favoris_POST ::
  "favoris_faults \<Rightarrow> int \<Rightarrow> timestamp \<Rightarrow> favorie_row list \<Rightarrow> string option \<Rightarrow> string option \<Rightarrow>
   http_response \<times> favorie_row list" where
  "favoris_POST faults new_id now favorie postUserId ville =
     (case test_fault faults of
        Some testError \<Rightarrow>
          (if pg_code testError = ''PGRST116'' then
             (respond 503 [(''error'', JStr ''Setup required''),
                           (''message'', JStr (''La table favorie doit '' @ [CHR 0xEA] @ ''tre cr'' @ [e_acute]
                              @ [e_acute] @ ''e dans Supabase'')),
                           (''needsSetup'', JBool True)], favorie)
           else (respond 500 [(''error'', JStr (pg_message testError))], favorie))
      | None \<Rightarrow>
          (case ville of
             Some v \<Rightarrow>
               (if v \<noteq> [] then
                  (case quota_check (count_fault faults) favorie postUserId of
                     Some refused \<Rightarrow> (refused, favorie)
                   | None \<Rightarrow> insert_favori (insert_fault faults) new_id now favorie postUserId v)
                else (ville_requise postUserId ville, favorie))
           | None \<Rightarrow> (ville_requise postUserId ville, favorie)))"

section \<open>Auth facade: \<^verbatim>\<open>AuthProvider\<close> and \<^verbatim>\<open>lib/demoAuth.js\<close>\<close>

text \<open>
  \<^verbatim>\<open>s.includes(sub)\<close>: \<open>sub\<close> occurs in \<open>s\<close> as a block.
\<close>

fun starts_with :: "string \<Rightarrow> string \<Rightarrow> bool" where
  "starts_with s [] = True"
| "starts_with [] (y # ys) = False"
| "starts_with (x # xs) (y # ys) = (x = y \<and> starts_with xs ys)"

fun str_includes :: "string \<Rightarrow> string \<Rightarrow> bool" where
  "str_includes [] sub = (sub = [])"
| "str_includes (c # cs) sub = (starts_with (c # cs) sub \<or> str_includes cs sub)"

text \<open>\<^verbatim>\<open>message?.includes(sub)\<close> on a message that may be \<^verbatim>\<open>undefined\<close>.\<close>

definition message_includes :: "string option \<Rightarrow> string \<Rightarrow> bool" where
  "message_includes m sub = (case m of None \<Rightarrow> False | Some s \<Rightarrow> str_includes s sub)"

text \<open>The decimal digits of \<^verbatim>\<open>Date.now()\<close> in \<^verbatim>\<open>"demo-user-" + Date.now()\<close>.\<close>

fun digits :: "nat \<Rightarrow> string" where
  "digits n = (if n < 10 then [char_of (48 + n)] else digits (n div 10) @ [char_of (48 + n mod 10)])"

record profile =
  nom :: "string option"
  prenom :: "string option"
  telephone :: "string option"
  localite :: "string option"

record auth_user =
  au_id :: string
  au_email :: string
  au_metadata :: profile
  au_created_at :: timestamp

text \<open>
  \<^verbatim>\<open>DemoAuth.signUp\<close> (after its delay): \<open>Inl\<close> is \<^verbatim>\<open>{ data: null, error: msg }\<close> and
  \<open>Inr user\<close> is \<^verbatim>\<open>{ data: { user }, error: null }\<close>. \<open>now\<close> is the clock at the call.
\<close>

definition demo_signUp :: "nat \<Rightarrow> string \<Rightarrow> string \<Rightarrow> profile \<Rightarrow> string + auth_user" where
  "demo_signUp now email_address password userData =
     (if email_address = ''test@demo.com'' then
        Inl (''Cet email est d'' @ [e_acute] @ ''j'' @ [a_grave] @ '' utilis'' @ [e_acute] @ '' (d''
               @ [e_acute] @ ''mo)'')
      else
        Inr \<lparr>au_id = ''demo-user-'' @ digits now,
             au_email = email_address,
             au_metadata = \<lparr>nom = nom userData, prenom = prenom userData,
                             telephone = telephone userData, localite = localite userData\<rparr>,
             au_created_at = int now\<rparr>)"

text \<open>
  What \<^verbatim>\<open>supabase.auth.signUp\<close> does: it throws (\<open>Throws m\<close>, with \<open>m\<close> the
  \<^verbatim>\<open>message\<close> of what was thrown), resolves to an error (\<open>Fails m\<close>) or resolves to data
  whose user may be null (\<open>Succeeds user\<close>). A message may be \<^verbatim>\<open>undefined\<close>.
\<close>

datatype provider_outcome =
    Throws "string option"
  | Fails "string option"
  | Succeeds "auth_user option"

text \<open>The \<^verbatim>\<open>error\<close> member of what the facade returns.\<close>

datatype js_error = ENull | EUndefined | EMessage string

definition js_error_of :: "string option \<Rightarrow> js_error" where
  "js_error_of m = (case m of None \<Rightarrow> EUndefined | Some s \<Rightarrow> EMessage s)"

text \<open>
  The \<^verbatim>\<open>data\<close> member: null, or an object whose \<^verbatim>\<open>user\<close> may be null.
\<close>

record signUp_result =
  su_data :: "auth_user option option"
  su_error :: js_error

text \<open>
  Lines 150 to 167: the error the live branch throws for an error of the provider.
  An \<^verbatim>\<open>undefined\<close> message prints as \<^verbatim>\<open>undefined\<close> in the template.
\<close>

definition inscription_error :: "string option \<Rightarrow> string" where
  "inscription_error m =
     (if message_includes m ''User already registered'' then
        ''Cette adresse email est d'' @ [e_acute] @ ''j'' @ [a_grave] @ '' utilis'' @ [e_acute] @ ''e''
      else if message_includes m ''Signup is disabled'' then
        ''L'' @ [CHR 0x27] @ ''inscription est d'' @ [e_acute] @ ''sactiv'' @ [e_acute] @ ''e sur ce projet''
      else if message_includes m ''Email rate limit exceeded'' then
        ''Limite d'' @ [CHR 0x27] @ ''emails atteinte, veuillez r'' @ [e_acute] @ ''essayer plus tard''
      else
        ''Erreur d'' @ [CHR 0x27] @ ''inscription: '' @ (case m of None \<Rightarrow> ''undefined'' | Some s \<Rightarrow> s))"

text \<open>
  A result of the demo backend as the facade returns it: a string that is thrown has no
  \<^verbatim>\<open>message\<close>, so the error reported is \<^verbatim>\<open>undefined\<close>.
\<close>

definition from_demo :: "string + auth_user \<Rightarrow> signUp_result" where
  "from_demo r =
     (case r of
        Inl demoError \<Rightarrow> \<lparr>su_data = None, su_error = EUndefined\<rparr>
      | Inr user \<Rightarrow> \<lparr>su_data = Some (Some user), su_error = ENull\<rparr>)"

text \<open>
  The \<^verbatim>\<open>catch\<close> block of \<^verbatim>\<open>signUp\<close>, lines 211 to 236, for a thrown value whose message is
  \<open>m\<close>; it is reached with \<open>isDemoMode\<close> as the call saw it. The second component is the
  flag after \<^verbatim>\<open>setIsDemoMode\<close>.
\<close>

definition signUp_catch ::
  "bool \<Rightarrow> nat \<Rightarrow> string \<Rightarrow> string \<Rightarrow> profile \<Rightarrow> string option \<Rightarrow> signUp_result \<times> bool" where
  "signUp_catch isDemoMode now email_address password userData m =
     (if \<not> isDemoMode \<and> message_includes m ''422'' then
        (from_demo (demo_signUp now email_address password userData), True)
      else (\<lparr>su_data = None, su_error = js_error_of m\<rparr>, isDemoMode))"

text \<open>
  \<^verbatim>\<open>signUp(email, password, userData)\<close>. The mirror of a successful live registration
  into the user directory and into the provider's metadata sits in a \<^verbatim>\<open>try\<close> of its own
  and changes neither the result nor the flag.
\<close>

definition signUp ::
  "provider_outcome \<Rightarrow> bool \<Rightarrow> nat \<Rightarrow> string \<Rightarrow> string \<Rightarrow> profile \<Rightarrow> signUp_result \<times> bool" where
  "signUp provider isDemoMode now email_address password userData =
     (if isDemoMode then
        (case demo_signUp now email_address password userData of
           Inl error \<Rightarrow> signUp_catch isDemoMode now email_address password userData None
         | Inr user \<Rightarrow> (\<lparr>su_data = Some (Some user), su_error = ENull\<rparr>, isDemoMode))
      else
        (case provider of
           Throws m \<Rightarrow> signUp_catch isDemoMode now email_address password userData m
         | Fails m \<Rightarrow>
             signUp_catch isDemoMode now email_address password userData (Some (inscription_error m))
         | Succeeds user \<Rightarrow> (\<lparr>su_data = Some user, su_error = ENull\<rparr>, isDemoMode)))"

text \<open>
  The calls of the facade. Only \<^verbatim>\<open>signUp\<close> contains a \<^verbatim>\<open>setIsDemoMode\<close>; the other
  functions of \<^verbatim>\<open>AuthProvider\<close> read the flag and leave it as it is.
\<close>

datatype facade_call =
    SignUp provider_outcome nat string string profile
  | SignIn string string
  | SignOut
  | UpdateProfile profile
  | UpdatePassword string
  | DeleteAccount

fun after_call :: "bool \<Rightarrow> facade_call \<Rightarrow> bool" where
  "after_call isDemoMode (SignUp provider now email_address password userData) =
     snd (signUp provider isDemoMode now email_address password userData)"
| "after_call isDemoMode (SignIn email_address password) = isDemoMode"
| "after_call isDemoMode SignOut = isDemoMode"
| "after_call isDemoMode (UpdateProfile updates) = isDemoMode"
| "after_call isDemoMode (UpdatePassword newPassword) = isDemoMode"
| "after_call isDemoMode DeleteAccount = isDemoMode"

definition after_calls :: "bool \<Rightarrow> facade_call list \<Rightarrow> bool" where
  "after_calls isDemoMode calls = foldl after_call isDemoMode calls"

section \<open>Example states\<close>

text \<open>
  A directory with one premium user whose entitlement ran out on 2025-03-14 at 11:00 UTC,
  and a failure the store may report for a statement.
\<close>

definition expired_user :: user_row where
  "expired_user = \<lparr>uid = ''u1'', email = ''a@x.com'', is_premium = True,
                   premium_expires_at = Some 1741950000000, stripe_customer_id = Some ''cus_1''\<rparr>"

definition expired_directory :: directory where
  "expired_directory = \<lparr>users = [expired_user], updates_sent = 0\<rparr>"

definition store_down :: pg_error where
  "store_down = \<lparr>pg_code = ''57P01'', pg_message = ''terminating connection''\<rparr>"

text \<open>
  Three sessions of the processor (a paid one that names its user in the metadata, an
  unpaid one, a paid one of an unknown customer), a processor that knows them, a host on
  UTC, and a host on Paris time around the change to summer time of 2025-03-30 01:00 UTC
  (a local time in the hour that is skipped takes the offset from before the change).
\<close>

definition paid_session :: checkout_session where
  "paid_session = \<lparr>session_id = ''cs_1'', payment_status = ''paid'', customer_email = Some ''a@x.com'',
                   customer = Some ''cus_1'', amount_total = Some 999, currency = Some ''eur'',
                   metadata = [(''user_id'', ''u1'')]\<rparr>"

definition open_session :: checkout_session where
  "open_session = \<lparr>session_id = ''cs_2'', payment_status = ''unpaid'', customer_email = Some ''a@x.com'',
                   customer = None, amount_total = Some 999, currency = Some ''eur'',
                   metadata = [(''user_id'', ''u1'')]\<rparr>"

definition stranger_session :: checkout_session where
  "stranger_session = \<lparr>session_id = ''cs_3'', payment_status = ''paid'', customer_email = Some ''nobody@x.com'',
                   customer = Some ''cus_3'', amount_total = Some 999, currency = Some ''eur'',
                   metadata = []\<rparr>"

definition processor :: "string \<Rightarrow> string + checkout_session" where
  "processor s =
     (if s = ''cs_1'' then Inr paid_session
      else if s = ''cs_2'' then Inr open_session
      else if s = ''cs_3'' then Inr stranger_session
      else Inl (''No such checkout.session: '' @ s))"

definition utc_host :: "timestamp \<Rightarrow> bool \<Rightarrow> int" where
  "utc_host t isUTC = 0"

definition paris_host :: "timestamp \<Rightarrow> bool \<Rightarrow> int" where
  "paris_host t isUTC =
     (if (if isUTC then t else t - 7200000) < 1743296400000 then 3600000 else 7200000)"

text \<open>
  The favorites of the scenario, in the table of the service and in the table of the API;
  a user with two favorites and one with a single favorite; a store without failures and
  one that refuses an insert for a unique constraint.
\<close>

definition trois_favoris :: "favoris_row list" where
  "trois_favoris =
     [\<lparr>fr_id = ''a@x.com'', fr_ville = ''Paris''\<rparr>,
      \<lparr>fr_id = ''a@x.com'', fr_ville = ''Lyon''\<rparr>,
      \<lparr>fr_id = ''a@x.com'', fr_ville = ''Nice''\<rparr>]"

definition trois_favorie :: "favorie_row list" where
  "trois_favorie =
     [\<lparr>fav_id = 1, fav_user_id = Some ''a@x.com'', fav_ville = ''Paris'', fav_created_at = 1741000000000\<rparr>,
      \<lparr>fav_id = 2, fav_user_id = Some ''a@x.com'', fav_ville = ''Lyon'', fav_created_at = 1741000001000\<rparr>,
      \<lparr>fav_id = 3, fav_user_id = Some ''a@x.com'', fav_ville = ''Nice'', fav_created_at = 1741000002000\<rparr>]"

definition un_favorie :: "favorie_row list" where
  "un_favorie =
     [\<lparr>fav_id = 1, fav_user_id = Some ''u1'', fav_ville = ''Paris'', fav_created_at = 1741000000000\<rparr>]"

definition no_faults :: favoris_faults where
  "no_faults = \<lparr>test_fault = None, count_fault = None, insert_fault = None\<rparr>"

definition unique_violation :: pg_error where
  "unique_violation = \<lparr>pg_code = ''23505'',
     pg_message = ''duplicate key value violates unique constraint''\<rparr>"

definition deux_favoris :: "favoris_row list" where
  "deux_favoris =
     [\<lparr>fr_id = ''a@x.com'', fr_ville = ''Paris''\<rparr>,
      \<lparr>fr_id = ''a@x.com'', fr_ville = ''Lyon''\<rparr>]"

definition store_refuses_duplicate :: favoris_faults where
  "store_refuses_duplicate = \<lparr>test_fault = None, count_fault = None, insert_fault = Some unique_violation\<rparr>"

text \<open>
  A session as the processor returns it for a checkout this application created for user
  \<open>u1\<close>, and the profile of a registration.
\<close>

definition app_session :: checkout_session where
  "app_session = \<lparr>session_id = ''cs_4'', payment_status = ''paid'', customer_email = Some ''a@x.com'',
                  customer = Some ''cus_4'', amount_total = Some 999, currency = Some ''eur'',
                  metadata = [(''userId'', ''u1''), (''userEmail'', ''a@x.com''),
                              (''purchaseType'', ''premium_monthly''),
                              (''timestamp'', ''2025-03-15T11:00:00.000Z'')]\<rparr>"

definition new_profile :: profile where
  "new_profile = \<lparr>nom = Some ''Martin'', prenom = Some (''Zo'' @ [e_acute]), telephone = Some ''0123456789'',
                  localite = Some ''Lyon''\<rparr>"

section \<open>The store\<close>

lemma single_Inr_iff: "single fault rs = Inr r \<longleftrightarrow> fault = None \<and> rs = [r]"
  by (auto simp: single_def split: option.splits list.splits)

lemma filter_uid_map_update:
  assumes "\<And>r. uid (f r) = uid r"
  shows "filter (\<lambda>r. uid r = u) (map (\<lambda>r. if uid r = u then f r else r) rs)
         = map f (filter (\<lambda>r. uid r = u) rs)"
  using assms by (induction rs) auto

lemma select_after_update:
  assumes "select_user_by_id None db u = Inr r" and "\<And>r. uid (f r) = uid r"
  shows "select_user_by_id None (snd (update_user None db u f)) u = Inr (f r)"
  using assms
  by (simp add: select_user_by_id_def update_user_def single_Inr_iff filter_uid_map_update)

lemma select_of_rows:
  "filter (\<lambda>r. uid r = u) (users db) = [r] \<Longrightarrow> select_user_by_id None db u = Inr r"
  by (simp add: select_user_by_id_def single_def)

lemma rows_after_update:
  assumes "filter (\<lambda>r. uid r = u) (users db) = [r]" and "\<And>r. uid (f r) = uid r"
  shows "filter (\<lambda>r. uid r = u) (users (snd (update_user None db u f))) = [f r]"
  using assms by (simp add: update_user_def filter_uid_map_update)

lemma update_sent: "updates_sent (snd (update_user fault db u g)) = Suc (updates_sent db)"
  by (simp add: update_user_def split: option.splits)

lemma expired_sel: "select_user_by_id None expired_directory ''u1'' = Inr expired_user"
  by (simp add: select_user_by_id_def expired_directory_def expired_user_def single_def)

section \<open>Properties of the entitlement resolver\<close>

lemma field_premium_status_response:
  "status_code (premium_status_response p e c u) = 200"
  "field ''is_premium'' (premium_status_response p e c u) = Some (JBool p)"
  "field ''premium_expires_at'' (premium_status_response p e c u) = Some (json_of_timestamp_option e)"
  by (simp_all add: premium_status_response_def respond_def field_def)

lemma premium_status_of_keep:
  assumes "select_user_by_id read_fault db u = Inr r"
    and "\<forall>t. premium_expires_at r = Some t \<longrightarrow> now \<le> t"
  shows "premium_status_of read_fault write_fault now checked_at db u
         = (premium_status_response (is_premium r) (premium_expires_at r) checked_at u, db)"
  using assms by (auto simp: premium_status_of_def Let_def split: option.splits)

lemma premium_status_of_not_premium:
  assumes "select_user_by_id read_fault db u = Inr r" and "\<not> is_premium r"
  shows "premium_status_of read_fault write_fault now checked_at db u
         = (premium_status_response False (premium_expires_at r) checked_at u, db)"
  using assms by (auto simp: premium_status_of_def Let_def split: option.splits)

lemma premium_status_of_expired:
  assumes "select_user_by_id read_fault db u = Inr r"
    and "is_premium r" and "premium_expires_at r = Some t" and "t < now"
  shows "premium_status_of read_fault write_fault now checked_at db u
         = (premium_status_response False (Some t) checked_at u,
            snd (update_user write_fault db u (\<lambda>r. r\<lparr>is_premium := False\<rparr>)))"
  using assms by (auto simp: premium_status_of_def Let_def split: option.splits prod.splits)

lemma handler_GET:
  "u \<noteq> [] \<Longrightarrow>
   premium_status_handler read_fault write_fault now checked_at db ''GET'' (Some u)
   = premium_status_of read_fault write_fault now checked_at db u"
  by (simp add: premium_status_handler_def)

text \<open>
  Claim C8. For a user who has one row in the directory, with a stored
  \<open>premium_expires_at\<close> that is not in the past (null, or at or after the clock of the
  call), a \<^verbatim>\<open>GET\<close> for that user's id whose select the store executes answers 200
  with the \<open>is_premium\<close> and the \<open>premium_expires_at\<close> of that row, and leaves the
  directory as it was: no update statement is sent.
\<close>

theorem getStatus_not_expired_unchanged:
  assumes "u \<noteq> []"
    and "read_fault = None"
    and "filter (\<lambda>r. uid r = u) (users db) = [r]"
    and "\<forall>t. premium_expires_at r = Some t \<longrightarrow> now \<le> t"
  shows "status_code (fst (premium_status_handler read_fault write_fault now checked_at db ''GET'' (Some u))) = 200
       \<and> field ''is_premium'' (fst (premium_status_handler read_fault write_fault now checked_at db ''GET'' (Some u)))
           = Some (JBool (is_premium r))
       \<and> field ''premium_expires_at'' (fst (premium_status_handler read_fault write_fault now checked_at db ''GET'' (Some u)))
           = Some (json_of_timestamp_option (premium_expires_at r))
       \<and> snd (premium_status_handler read_fault write_fault now checked_at db ''GET'' (Some u)) = db"
proof -
  have "select_user_by_id read_fault db u = Inr r"
    using assms(2,3) by (simp add: select_of_rows)
  then show ?thesis
    using assms(1,4) by (simp add: handler_GET premium_status_of_keep field_premium_status_response)
qed

theorem getStatus_not_expired_unchanged_witness:
  "''u1'' \<noteq> []
   \<and> filter (\<lambda>r. uid r = ''u1'') (users expired_directory) = [expired_user]
   \<and> premium_expires_at expired_user = Some 1741950000000
   \<and> (1741900000000 :: int) \<le> 1741950000000
   \<and> field ''is_premium'' (fst (premium_status_handler None None 1741900000000 1741900000001
        expired_directory ''GET'' (Some ''u1''))) = Some (JBool True)
   \<and> field ''premium_expires_at'' (fst (premium_status_handler None None 1741900000000 1741900000001
        expired_directory ''GET'' (Some ''u1''))) = Some (JDate 1741950000000)
   \<and> snd (premium_status_handler None None 1741900000000 1741900000001
        expired_directory ''GET'' (Some ''u1'')) = expired_directory"
proof -
  have rows: "filter (\<lambda>r. uid r = ''u1'') (users expired_directory) = [expired_user]"
    by (simp add: expired_directory_def expired_user_def)
  show ?thesis
    using rows getStatus_not_expired_unchanged [of "''u1''" None expired_directory expired_user 1741900000000 None 1741900000001]
    by (simp add: expired_user_def json_of_timestamp_option_def)
qed

text \<open>
  Claim C1, as the code has it. For a user stored as premium whose \<open>premium_expires_at\<close>
  is strictly before the clock of the call, a \<^verbatim>\<open>GET\<close> whose select returns the user's
  row answers 200 with \<open>is_premium = false\<close> and the stored \<open>premium_expires_at\<close>,
  whatever becomes of the update. When the store accepts the update, the user's row is
  afterwards stored with \<open>is_premium = false\<close>, one update statement has been sent, and
  any later \<^verbatim>\<open>GET\<close> gives the same answer and leaves the directory untouched.
\<close>

theorem getStatus_expired_downgrade:
  assumes "u \<noteq> []"
    and "select_user_by_id read_fault db u = Inr r"
    and "is_premium r" and "premium_expires_at r = Some t" and "t < now"
  shows "status_code (fst (premium_status_handler read_fault write_fault now checked_at db ''GET'' (Some u))) = 200
       \<and> field ''is_premium'' (fst (premium_status_handler read_fault write_fault now checked_at db ''GET'' (Some u)))
           = Some (JBool False)
       \<and> field ''premium_expires_at'' (fst (premium_status_handler read_fault write_fault now checked_at db ''GET'' (Some u)))
           = Some (JDate t)
       \<and> (write_fault = None \<longrightarrow>
            select_user_by_id None (snd (premium_status_handler read_fault write_fault now checked_at db ''GET'' (Some u))) u
              = Inr (r\<lparr>is_premium := False\<rparr>)
          \<and> updates_sent (snd (premium_status_handler read_fault write_fault now checked_at db ''GET'' (Some u)))
              = Suc (updates_sent db)
          \<and> (\<forall>write_fault2 now2 checked2.
                field ''is_premium'' (fst (premium_status_handler None write_fault2 now2 checked2
                   (snd (premium_status_handler read_fault write_fault now checked_at db ''GET'' (Some u))) ''GET'' (Some u)))
                  = Some (JBool False)
              \<and> field ''premium_expires_at'' (fst (premium_status_handler None write_fault2 now2 checked2
                   (snd (premium_status_handler read_fault write_fault now checked_at db ''GET'' (Some u))) ''GET'' (Some u)))
                  = Some (JDate t)
              \<and> snd (premium_status_handler None write_fault2 now2 checked2
                   (snd (premium_status_handler read_fault write_fault now checked_at db ''GET'' (Some u))) ''GET'' (Some u))
                  = snd (premium_status_handler read_fault write_fault now checked_at db ''GET'' (Some u))))"
proof -
  let ?f = "\<lambda>r. r\<lparr>is_premium := False\<rparr>"
  let ?db' = "snd (update_user write_fault db u ?f)"
  have first: "premium_status_handler read_fault write_fault now checked_at db ''GET'' (Some u)
      = (premium_status_response False (Some t) checked_at u, ?db')"
    using assms by (simp add: handler_GET premium_status_of_expired)
  have rf: "read_fault = None"
    using assms(2) by (simp add: select_user_by_id_def single_Inr_iff)
  have resp: "status_code (premium_status_response False (Some t) checked_at u) = 200"
    "field ''is_premium'' (premium_status_response False (Some t) checked_at u) = Some (JBool False)"
    "field ''premium_expires_at'' (premium_status_response False (Some t) checked_at u) = Some (JDate t)"
    by (simp_all add: field_premium_status_response json_of_timestamp_option_def)
  have persisted: "select_user_by_id None ?db' u = Inr (?f r)" if "write_fault = None"
    using that assms(2) rf select_after_update [of db u r ?f] by simp
  have second: "premium_status_handler None write_fault2 now2 checked2 ?db' ''GET'' (Some u)
      = (premium_status_response False (Some t) checked2 u, ?db')"
    if "write_fault = None" for write_fault2 now2 checked2
    using persisted [OF that] assms(1,4)
      premium_status_of_not_premium [of None ?db' u "?f r" write_fault2 now2 checked2]
    by (simp add: handler_GET)
  show ?thesis
    unfolding first fst_conv snd_conv
    using resp persisted second
    by (simp add: update_sent field_premium_status_response json_of_timestamp_option_def)
qed

theorem getStatus_expired_downgrade_witness:
  "''u1'' \<noteq> []
   \<and> select_user_by_id None expired_directory ''u1'' = Inr expired_user
   \<and> is_premium expired_user \<and> premium_expires_at expired_user = Some 1741950000000
   \<and> (1741950000000 :: int) < 1742036400000
   \<and> field ''is_premium'' (fst (premium_status_handler None None 1742036400000 1742036400001
        expired_directory ''GET'' (Some ''u1''))) = Some (JBool False)
   \<and> field ''premium_expires_at'' (fst (premium_status_handler None None 1742036400000 1742036400001
        expired_directory ''GET'' (Some ''u1''))) = Some (JDate 1741950000000)
   \<and> select_user_by_id None (snd (premium_status_handler None None 1742036400000 1742036400001
        expired_directory ''GET'' (Some ''u1''))) ''u1'' = Inr (expired_user\<lparr>is_premium := False\<rparr>)
   \<and> updates_sent (snd (premium_status_handler None None 1742036400000 1742036400001
        expired_directory ''GET'' (Some ''u1''))) = 1"
  using getStatus_expired_downgrade
    [of "''u1''" None expired_directory expired_user 1741950000000 1742036400000 None 1742036400001]
    expired_sel
  by (simp add: expired_user_def expired_directory_def)

text \<open>
  The claim as the specification words it fails when the store rejects the update: the
  answer is \<open>is_premium = false\<close>, but the row is still stored as premium, and the next
  \<^verbatim>\<open>GET\<close> sends the update again.
\<close>

theorem getStatus_rejected_update_not_persisted:
  "select_user_by_id None expired_directory ''u1'' = Inr expired_user
   \<and> is_premium expired_user \<and> premium_expires_at expired_user = Some 1741950000000
   \<and> (1741950000000 :: int) < 1742036400000
   \<and> field ''is_premium'' (fst (premium_status_handler None (Some store_down) 1742036400000 1742036400001
        expired_directory ''GET'' (Some ''u1''))) = Some (JBool False)
   \<and> select_user_by_id None
        (snd (premium_status_handler None (Some store_down) 1742036400000 1742036400001
           expired_directory ''GET'' (Some ''u1'')))
        ''u1'' = Inr expired_user
   \<and> updates_sent (snd (premium_status_handler None None 1742036500000 1742036500001
        (snd (premium_status_handler None (Some store_down) 1742036400000 1742036400001
           expired_directory ''GET'' (Some ''u1'')))
        ''GET'' (Some ''u1'')))
      = Suc (updates_sent (snd (premium_status_handler None (Some store_down) 1742036400000 1742036400001
           expired_directory ''GET'' (Some ''u1''))))"
  by (simp add: premium_status_handler_def premium_status_of_def select_user_by_id_def single_def
      update_user_def expired_directory_def expired_user_def Let_def
      premium_status_response_def respond_def field_def)

section \<open>Properties of the payment confirmation\<close>

lemma setDate_constant_offset:
  assumes "tza (now + tza now True + n * msPerDay) False = tza now True"
  shows "setDate_getDate_plus tza now n = now + n * msPerDay"
proof -
  have "(Day t + n) * msPerDay + TimeWithinDay t = t + n * msPerDay" for t
    by (simp add: Day_def TimeWithinDay_def algebra_simps)
  then show ?thesis
    using assms by (simp add: setDate_getDate_plus_def LocalTime_def UTC_def Let_def)
qed

lemma confirm_GET:
  "s \<noteq> [] \<Longrightarrow> retrieve s = Inr session \<Longrightarrow> payment_status session = ''paid'' \<Longrightarrow>
   confirm retrieve tza read_fault write_fault now db ''GET'' (Some s)
   = confirm_paid tza read_fault write_fault now db session"
  "s \<noteq> [] \<Longrightarrow> retrieve s = Inr session \<Longrightarrow> payment_status session \<noteq> ''paid'' \<Longrightarrow>
   confirm retrieve tza read_fault write_fault now db ''GET'' (Some s)
   = (respond 200
        [(''status'', JStr ''pending''),
         (''session'', JObj (session_summary session)),
         (''user_updated'', JBool False),
         (''message'', JStr (''Paiement en cours: '' @ payment_status session))], db)"
  "s \<noteq> [] \<Longrightarrow> retrieve s = Inl m \<Longrightarrow>
   confirm retrieve tza read_fault write_fault now db ''GET'' (Some s)
   = (respond 500
        [(''status'', JStr ''error''),
         (''error'', JStr (''Erreur serveur lors de la v'' @ [e_acute] @ ''rification'')),
         (''details'', JStr m),
         (''session_id'', JStr s),
         (''timestamp'', JDate now)], db)"
  by (simp_all add: confirm_def)

lemma activate_accepted:
  "activate tza None now db session u
   = (respond 200
        [(''status'', JStr ''complete''),
         (''session'', JObj (session_summary session @
            [(''amount_total'', json_of_int_option (amount_total session)),
             (''currency'', json_of_string_option (currency session))])),
         (''user_updated'', JBool True),
         (''user_id'', JStr u),
         (''premium_expires_at'', JDate (setDate_getDate_plus tza now 30)),
         (''stripe_customer_id'', json_of_string_option (customer session)),
         (''message'', JStr (''Statut premium activ'' @ [e_acute] @ '' avec succ'' @ [CHR 0xE8] @ ''s''))],
      snd (update_user None db u
             (\<lambda>r. r\<lparr>is_premium := True,
                     premium_expires_at := Some (setDate_getDate_plus tza now 30),
                     stripe_customer_id := customer session\<rparr>)))"
  by (simp add: activate_def update_user_def Let_def)

lemma activate_rejected:
  "activate tza (Some e) now db session u
   = (respond 200
        [(''session'', JObj (session_summary session @
            [(''amount_total'', json_of_int_option (amount_total session))])),
         (''user_updated'', JBool False),
         (''error'', JStr (''Erreur lors de la mise '' @ [a_grave] @ '' jour du profil utilisateur'')),
         (''details'', JStr (pg_message e))],
      db\<lparr>updates_sent := Suc (updates_sent db)\<rparr>)"
  by (simp add: activate_def update_user_def Let_def)

lemma confirm_paid_resolved:
  "resolve_user read_fault db session = Some u \<Longrightarrow> u \<noteq> [] \<Longrightarrow>
   confirm_paid tza read_fault write_fault now db session = activate tza write_fault now db session u"
  by (simp add: confirm_paid_def)

lemma confirm_paid_unresolved:
  "resolve_user read_fault db session = None \<or> resolve_user read_fault db session = Some [] \<Longrightarrow>
   confirm_paid tza read_fault write_fault now db session = (user_not_found_response session, db)"
  by (auto simp: confirm_paid_def)

lemma field_respond: "field k (respond n kvs) = map_of kvs k" "status_code (respond n kvs) = n"
  by (simp_all add: field_def respond_def)

text \<open>
  Claim C2, as the code has it. A \<^verbatim>\<open>GET\<close> for a session the processor reports as
  \<^verbatim>\<open>paid\<close>, whose user resolves to the id of the one row a user has in the directory
  and whose update the directory accepts, answers 200 with \<open>status = complete\<close>,
  \<open>user_updated = true\<close> and the \<open>premium_expires_at\<close> that
  \<^verbatim>\<open>setDate(getDate() + 30)\<close> gives for the clock of the call; the user's row is then
  stored as premium with that expiry and the session's customer id. On a host whose
  offset from UTC is the same at the call and 30 days later, that expiry is 30 times
  86400000 milliseconds after the clock of the call. Independently of all that, a
  \<^verbatim>\<open>GET\<close> for a session with any other payment status answers 200 with
  \<open>status = pending\<close> and \<open>user_updated = false\<close>, and leaves the directory as it was,
  on any host, at any time and whatever the store would report.
\<close>

theorem confirm_paid_activates:
  "(s \<noteq> [] \<and> retrieve s = Inr session \<and> payment_status session = ''paid''
      \<and> resolve_user read_fault db session = Some u \<and> u \<noteq> []
      \<and> filter (\<lambda>r. uid r = u) (users db) = [r] \<and> write_fault = None
    \<longrightarrow> status_code (fst (confirm retrieve tza read_fault write_fault now db ''GET'' (Some s))) = 200
      \<and> field ''status'' (fst (confirm retrieve tza read_fault write_fault now db ''GET'' (Some s)))
          = Some (JStr ''complete'')
      \<and> field ''user_updated'' (fst (confirm retrieve tza read_fault write_fault now db ''GET'' (Some s)))
          = Some (JBool True)
      \<and> field ''premium_expires_at'' (fst (confirm retrieve tza read_fault write_fault now db ''GET'' (Some s)))
          = Some (JDate (setDate_getDate_plus tza now 30))
      \<and> filter (\<lambda>r. uid r = u) (users (snd (confirm retrieve tza read_fault write_fault now db ''GET'' (Some s))))
          = [r\<lparr>is_premium := True, premium_expires_at := Some (setDate_getDate_plus tza now 30),
                stripe_customer_id := customer session\<rparr>])
   \<and> (s \<noteq> [] \<and> retrieve s = Inr session \<and> payment_status session = ''paid''
      \<and> resolve_user read_fault db session = Some u \<and> u \<noteq> []
      \<and> filter (\<lambda>r. uid r = u) (users db) = [r] \<and> write_fault = None
      \<and> tza (now + tza now True + 30 * msPerDay) False = tza now True
    \<longrightarrow> field ''premium_expires_at'' (fst (confirm retrieve tza read_fault write_fault now db ''GET'' (Some s)))
          = Some (JDate (now + 30 * msPerDay))
      \<and> filter (\<lambda>r. uid r = u) (users (snd (confirm retrieve tza read_fault write_fault now db ''GET'' (Some s))))
          = [r\<lparr>is_premium := True, premium_expires_at := Some (now + 30 * msPerDay),
                stripe_customer_id := customer session\<rparr>])
   \<and> (s2 \<noteq> [] \<and> retrieve2 s2 = Inr other \<and> payment_status other \<noteq> ''paid''
    \<longrightarrow> status_code (fst (confirm retrieve2 tza2 read_fault2 write_fault2 now2 db2 ''GET'' (Some s2))) = 200
      \<and> field ''status'' (fst (confirm retrieve2 tza2 read_fault2 write_fault2 now2 db2 ''GET'' (Some s2)))
          = Some (JStr ''pending'')
      \<and> field ''user_updated'' (fst (confirm retrieve2 tza2 read_fault2 write_fault2 now2 db2 ''GET'' (Some s2)))
          = Some (JBool False)
      \<and> snd (confirm retrieve2 tza2 read_fault2 write_fault2 now2 db2 ''GET'' (Some s2)) = db2)"
  (is "?A \<and> ?B \<and> ?C")
proof -
  let ?e = "setDate_getDate_plus tza now 30"
  let ?f = "\<lambda>r. r\<lparr>is_premium := True, premium_expires_at := Some ?e,
                    stripe_customer_id := customer session\<rparr>"
  have paid: "status_code (fst (confirm retrieve tza read_fault write_fault now db ''GET'' (Some s))) = 200
      \<and> field ''status'' (fst (confirm retrieve tza read_fault write_fault now db ''GET'' (Some s)))
          = Some (JStr ''complete'')
      \<and> field ''user_updated'' (fst (confirm retrieve tza read_fault write_fault now db ''GET'' (Some s)))
          = Some (JBool True)
      \<and> field ''premium_expires_at'' (fst (confirm retrieve tza read_fault write_fault now db ''GET'' (Some s)))
          = Some (JDate ?e)
      \<and> filter (\<lambda>r. uid r = u) (users (snd (confirm retrieve tza read_fault write_fault now db ''GET'' (Some s))))
          = [?f r]"
    if h: "s \<noteq> []" "retrieve s = Inr session" "payment_status session = ''paid''"
      "resolve_user read_fault db session = Some u" "u \<noteq> []"
      "filter (\<lambda>r. uid r = u) (users db) = [r]" "write_fault = None"
  proof -
    have c: "confirm retrieve tza read_fault write_fault now db ''GET'' (Some s)
        = activate tza None now db session u"
      using h by (simp add: confirm_GET confirm_paid_resolved)
    have row: "filter (\<lambda>r. uid r = u) (users (snd (update_user None db u ?f))) = [?f r]"
      using h(6) by (rule rows_after_update) simp
    show ?thesis
      unfolding c activate_accepted fst_conv snd_conv
      using row by (simp add: field_respond)
  qed
  have A: ?A by (intro impI, elim conjE, rule paid)
  have B: ?B
  proof (intro impI, elim conjE)
    assume h: "s \<noteq> []" "retrieve s = Inr session" "payment_status session = ''paid''"
      "resolve_user read_fault db session = Some u" "u \<noteq> []"
      "filter (\<lambda>r. uid r = u) (users db) = [r]" "write_fault = None"
      and off: "tza (now + tza now True + 30 * msPerDay) False = tza now True"
    have e: "?e = now + 30 * msPerDay"
      using off by (rule setDate_constant_offset)
    show "field ''premium_expires_at'' (fst (confirm retrieve tza read_fault write_fault now db ''GET'' (Some s)))
          = Some (JDate (now + 30 * msPerDay))
      \<and> filter (\<lambda>r. uid r = u) (users (snd (confirm retrieve tza read_fault write_fault now db ''GET'' (Some s))))
          = [r\<lparr>is_premium := True, premium_expires_at := Some (now + 30 * msPerDay),
                stripe_customer_id := customer session\<rparr>]"
      using paid [OF h] unfolding e by simp
  qed
  have pending: "status_code (fst (confirm retrieve2 tza2 read_fault2 write_fault2 now2 db2 ''GET'' (Some s2))) = 200
      \<and> field ''status'' (fst (confirm retrieve2 tza2 read_fault2 write_fault2 now2 db2 ''GET'' (Some s2)))
          = Some (JStr ''pending'')
      \<and> field ''user_updated'' (fst (confirm retrieve2 tza2 read_fault2 write_fault2 now2 db2 ''GET'' (Some s2)))
          = Some (JBool False)
      \<and> snd (confirm retrieve2 tza2 read_fault2 write_fault2 now2 db2 ''GET'' (Some s2)) = db2"
    if "s2 \<noteq> []" "retrieve2 s2 = Inr other" "payment_status other \<noteq> ''paid''"
    using that by (simp add: confirm_GET field_respond)
  have C: ?C by (intro impI, elim conjE, rule pending)
  show ?thesis by (intro conjI A B C)
qed

lemma resolve_paid: "resolve_user None expired_directory paid_session = Some ''u1''"
  by (simp add: resolve_user_def paid_session_def falsy_def)

theorem confirm_paid_activates_witness:
  "''cs_1'' \<noteq> [] \<and> processor ''cs_1'' = Inr paid_session \<and> payment_status paid_session = ''paid''
   \<and> resolve_user None expired_directory paid_session = Some ''u1''
   \<and> filter (\<lambda>r. uid r = ''u1'') (users expired_directory) = [expired_user]
   \<and> utc_host (1742036400000 + utc_host 1742036400000 True + 30 * msPerDay) False = utc_host 1742036400000 True
   \<and> field ''status'' (fst (confirm processor utc_host None None 1742036400000 expired_directory ''GET'' (Some ''cs_1'')))
       = Some (JStr ''complete'')
   \<and> field ''user_updated'' (fst (confirm processor utc_host None None 1742036400000 expired_directory ''GET'' (Some ''cs_1'')))
       = Some (JBool True)
   \<and> field ''premium_expires_at'' (fst (confirm processor utc_host None None 1742036400000 expired_directory ''GET'' (Some ''cs_1'')))
       = Some (JDate 1744628400000)
   \<and> filter (\<lambda>r. uid r = ''u1'')
        (users (snd (confirm processor utc_host None None 1742036400000 expired_directory ''GET'' (Some ''cs_1''))))
       = [expired_user\<lparr>is_premium := True, premium_expires_at := Some 1744628400000,
                stripe_customer_id := Some ''cus_1''\<rparr>]
   \<and> processor ''cs_2'' = Inr open_session \<and> payment_status open_session \<noteq> ''paid''
   \<and> field ''status'' (fst (confirm processor paris_host None (Some store_down) 1742036400000
        expired_directory ''GET'' (Some ''cs_2''))) = Some (JStr ''pending'')
   \<and> field ''user_updated'' (fst (confirm processor paris_host None (Some store_down) 1742036400000
        expired_directory ''GET'' (Some ''cs_2''))) = Some (JBool False)
   \<and> snd (confirm processor paris_host None (Some store_down) 1742036400000
        expired_directory ''GET'' (Some ''cs_2'')) = expired_directory"
proof -
  have h: "processor ''cs_1'' = Inr paid_session" "payment_status paid_session = ''paid''"
    "processor ''cs_2'' = Inr open_session" "payment_status open_session \<noteq> ''paid''"
    "utc_host (1742036400000 + utc_host 1742036400000 True + 30 * msPerDay) False = utc_host 1742036400000 True"
    "customer paid_session = Some ''cus_1''"
    "filter (\<lambda>r. uid r = ''u1'') (users expired_directory) = [expired_user]"
    by (simp_all add: processor_def paid_session_def open_session_def utc_host_def
        expired_directory_def expired_user_def)
  note t = confirm_paid_activates [of "''cs_1''" processor paid_session None expired_directory "''u1''" expired_user None
        utc_host 1742036400000 "''cs_2''" processor open_session paris_host None "Some store_down"
        1742036400000 expired_directory]
  show ?thesis
    using h resolve_paid t
    by (simp add: msPerDay_def setDate_getDate_plus_def LocalTime_def UTC_def Day_def
        TimeWithinDay_def utc_host_def Let_def)
qed

text \<open>
  The claim as the specification words it fails in two ways. When the directory rejects
  the update, the paid session of a resolved user is answered with
  \<open>user_updated = false\<close> and the row is unchanged. And on a host whose clocks move to
  summer time within the 30 days, \<^verbatim>\<open>setDate(getDate() + 30)\<close> keeps the local time of
  day, so the expiry is an hour short of 30 days.
\<close>

theorem confirm_paid_not_always_updated:
  "processor ''cs_1'' = Inr paid_session \<and> payment_status paid_session = ''paid''
   \<and> resolve_user None expired_directory paid_session = Some ''u1''
   \<and> select_user_by_id None expired_directory ''u1'' = Inr expired_user
   \<and> field ''user_updated'' (fst (confirm processor utc_host None (Some store_down) 1742036400000
        expired_directory ''GET'' (Some ''cs_1''))) = Some (JBool False)
   \<and> select_user_by_id None (snd (confirm processor utc_host None (Some store_down) 1742036400000
        expired_directory ''GET'' (Some ''cs_1''))) ''u1'' = Inr expired_user
   \<and> field ''user_updated'' (fst (confirm processor paris_host None None 1742036400000
        expired_directory ''GET'' (Some ''cs_1''))) = Some (JBool True)
   \<and> field ''premium_expires_at'' (fst (confirm processor paris_host None None 1742036400000
        expired_directory ''GET'' (Some ''cs_1''))) = Some (JDate 1744624800000)
   \<and> (1744624800000 :: int) \<noteq> 1742036400000 + 30 * 86400000"
proof -
  have p: "processor ''cs_1'' = Inr paid_session" "payment_status paid_session = ''paid''"
    by (simp_all add: processor_def paid_session_def)
  have c: "confirm processor tza None wfl 1742036400000 expired_directory ''GET'' (Some ''cs_1'')
      = activate tza wfl 1742036400000 expired_directory paid_session ''u1''" for tza wfl
    using p resolve_paid by (simp add: confirm_GET confirm_paid_resolved)
  have d: "setDate_getDate_plus paris_host 1742036400000 30 = 1744624800000"
    by (simp add: setDate_getDate_plus_def LocalTime_def UTC_def Day_def TimeWithinDay_def
        msPerDay_def paris_host_def Let_def)
  have s: "select_user_by_id None (expired_directory\<lparr>updates_sent := Suc (updates_sent expired_directory)\<rparr>) ''u1''
      = Inr expired_user"
    using expired_sel by (simp add: select_user_by_id_def)
  show ?thesis
    unfolding c activate_rejected activate_accepted d fst_conv snd_conv
    using p resolve_paid expired_sel s by (simp add: field_respond)
qed

lemma resolve_stranger: "resolve_user None expired_directory stranger_session = None"
  by (simp add: resolve_user_def stranger_session_def falsy_def select_user_by_email_def
      expired_directory_def expired_user_def single_def)

text \<open>
  Claim C3, at the input where the code departs from it. The session \<open>cs_1\<close> is paid
  and its user is resolved, and the store rejects the update: the answer is an HTTP 200
  with \<open>user_updated = false\<close>, as the claim says, but it has no \<open>status\<close> member at
  all, where the claim expects the status of a complete outcome. The other soft failure,
  the paid session \<open>cs_3\<close> whose user cannot be resolved, is answered with
  \<open>status = complete\<close>.
\<close>

theorem confirm_rejected_update_without_status:
  "processor ''cs_1'' = Inr paid_session \<and> payment_status paid_session = ''paid''
   \<and> resolve_user None expired_directory paid_session = Some ''u1''
   \<and> status_code (fst (confirm processor utc_host None (Some store_down) 1742036400000
        expired_directory ''GET'' (Some ''cs_1''))) = 200
   \<and> field ''user_updated'' (fst (confirm processor utc_host None (Some store_down) 1742036400000
        expired_directory ''GET'' (Some ''cs_1''))) = Some (JBool False)
   \<and> field ''status'' (fst (confirm processor utc_host None (Some store_down) 1742036400000
        expired_directory ''GET'' (Some ''cs_1''))) = None
   \<and> processor ''cs_3'' = Inr stranger_session \<and> payment_status stranger_session = ''paid''
   \<and> resolve_user None expired_directory stranger_session = None
   \<and> status_code (fst (confirm processor utc_host None None 1742036400000
        expired_directory ''GET'' (Some ''cs_3''))) = 200
   \<and> field ''user_updated'' (fst (confirm processor utc_host None None 1742036400000
        expired_directory ''GET'' (Some ''cs_3''))) = Some (JBool False)
   \<and> field ''status'' (fst (confirm processor utc_host None None 1742036400000
        expired_directory ''GET'' (Some ''cs_3''))) = Some (JStr ''complete'')"
proof -
  have p: "processor ''cs_1'' = Inr paid_session" "payment_status paid_session = ''paid''"
    "processor ''cs_3'' = Inr stranger_session" "payment_status stranger_session = ''paid''"
    by (simp_all add: processor_def paid_session_def stranger_session_def)
  have c: "confirm processor utc_host None (Some store_down) 1742036400000 expired_directory ''GET'' (Some ''cs_1'')
      = activate utc_host (Some store_down) 1742036400000 expired_directory paid_session ''u1''"
    using p resolve_paid by (simp add: confirm_GET confirm_paid_resolved)
  have d: "confirm processor utc_host None None 1742036400000 expired_directory ''GET'' (Some ''cs_3'')
      = (user_not_found_response stranger_session, expired_directory)"
    using p resolve_stranger by (simp add: confirm_GET confirm_paid_unresolved)
  show ?thesis
    unfolding c d activate_rejected fst_conv
    using p resolve_paid resolve_stranger
    by (simp add: field_respond user_not_found_response_def)
qed

section \<open>Properties of the favorites\<close>

lemma char_of_shifted: "(of_char d :: nat) = of_char c + 32 \<Longrightarrow> char_of ((of_char c :: nat) + 32) = d"
  by (metis char_of_char)

lemma same_letter_lower: "same_letter c d \<Longrightarrow> lower_of c = lower_of d"
  by (auto simp: same_letter_def lower_of_def is_upper_def Let_def char_of_shifted)

lemma differs_only_in_case_lower:
  "differs_only_in_case a b \<Longrightarrow> toLowerCase a = toLowerCase b"
  unfolding differs_only_in_case_def toLowerCase_def
  by (induction rule: list_all2_induct) (simp_all add: same_letter_lower)

lemma quota_check_full:
  assumes "u \<noteq> []" and "3 \<le> length (filter (\<lambda>f. fav_user_id f = Some u) favorie)"
  shows "quota_check None favorie (Some u)
         = Some (respond 400 [(''error'', JStr ''Limite de 3 favoris atteinte''),
              (''current_count'', JNum (int (length (filter (\<lambda>f. fav_user_id f = Some u) favorie)))),
              (''max_allowed'', JNum 3)])"
  using assms by (simp add: quota_check_def falsy_def Let_def)

lemma quota_check_anonymous: "falsy postUserId \<Longrightarrow> quota_check fault favorie postUserId = None"
  by (simp add: quota_check_def)

lemma favoris_POST_ville:
  "test_fault faults = None \<Longrightarrow> v \<noteq> [] \<Longrightarrow>
   favoris_POST faults new_id now favorie postUserId (Some v)
   = (case quota_check (count_fault faults) favorie postUserId of
        Some refused \<Rightarrow> (refused, favorie)
      | None \<Rightarrow> insert_favori (insert_fault faults) new_id now favorie postUserId v)"
  by (simp add: favoris_POST_def)

text \<open>
  Claim C4. When the user already has three favorites or more, an add fails with the
  quota error whatever the place name, and nothing is inserted: in the service for every
  \<open>ville\<close>, once the select of the user's favorites has succeeded; in the API for every
  request that supplies a user id and a place name, once the table test and the count
  have succeeded, with HTTP status 400 and the count in the body.
\<close>

theorem add_at_quota_fails:
  assumes "3 \<le> length (filter (\<lambda>f. fr_id f = userId) favoris)"
    and "test_fault faults = None" and "count_fault faults = None"
    and "u \<noteq> []" and "v \<noteq> []"
    and "3 \<le> length (filter (\<lambda>f. fav_user_id f = Some u) favorie)"
  shows "ajouterFavori None ins favoris userId ville = (Inl QuotaExceeded, favoris)
       \<and> favoris_POST faults new_id now favorie (Some u) (Some v)
         = (respond 400 [(''error'', JStr ''Limite de 3 favoris atteinte''),
              (''current_count'', JNum (int (length (filter (\<lambda>f. fav_user_id f = Some u) favorie)))),
              (''max_allowed'', JNum 3)], favorie)"
  using assms by (simp add: ajouterFavori_def favoris_POST_ville quota_check_full)

theorem add_at_quota_fails_witness:
  "3 \<le> length (filter (\<lambda>f. fr_id f = ''a@x.com'') trois_favoris)
   \<and> test_fault no_faults = None \<and> count_fault no_faults = None
   \<and> 3 \<le> length (filter (\<lambda>f. fav_user_id f = Some ''a@x.com'') trois_favorie)
   \<and> ajouterFavori None None trois_favoris ''a@x.com'' ''Marseille'' = (Inl QuotaExceeded, trois_favoris)
   \<and> ajouterFavori None None trois_favoris ''a@x.com'' ''Paris'' = (Inl QuotaExceeded, trois_favoris)
   \<and> favoris_POST no_faults 4 1741000003000 trois_favorie (Some ''a@x.com'') (Some ''Marseille'')
       = (respond 400 [(''error'', JStr ''Limite de 3 favoris atteinte''),
            (''current_count'', JNum 3), (''max_allowed'', JNum 3)], trois_favorie)"
proof -
  have h: "3 \<le> length (filter (\<lambda>f. fr_id f = ''a@x.com'') trois_favoris)"
    "test_fault no_faults = None" "count_fault no_faults = None"
    "3 \<le> length (filter (\<lambda>f. fav_user_id f = Some ''a@x.com'') trois_favorie)"
    "length (filter (\<lambda>f. fav_user_id f = Some ''a@x.com'') trois_favorie) = 3"
    by (simp_all add: trois_favoris_def trois_favorie_def no_faults_def)
  show ?thesis
    using h
      add_at_quota_fails [of "''a@x.com''" trois_favoris no_faults "''a@x.com''" "''Marseille''" trois_favorie
            None "''Marseille''" 4 1741000003000]
      add_at_quota_fails [of "''a@x.com''" trois_favoris no_faults "''a@x.com''" "''Marseille''" trois_favorie
            None "''Paris''" 4 1741000003000]
    by simp
qed

text \<open>
  Claim C5, as the code has it. The user \<open>a@x.com\<close> has the three favorites Paris, Lyon
  and Nice. Adding \<open>paris\<close> fails with the quota error, and so does adding
  \<open>Marseille\<close>; neither inserts anything. The quota is tested before the duplicate.
\<close>

theorem scenario_three_favorites:
  "fst (ajouterFavori None ins trois_favoris ''a@x.com'' ''paris'') = Inl QuotaExceeded
   \<and> fst (ajouterFavori None ins trois_favoris ''a@x.com'' ''Marseille'') = Inl QuotaExceeded
   \<and> snd (ajouterFavori None ins trois_favoris ''a@x.com'' ''paris'') = trois_favoris
   \<and> snd (ajouterFavori None ins trois_favoris ''a@x.com'' ''Marseille'') = trois_favoris"
  by (simp add: ajouterFavori_def trois_favoris_def)

text \<open>
  The scenario as the specification words it expects the duplicate error for \<open>paris\<close>.
\<close>

theorem scenario_paris_is_refused_for_quota:
  "map fr_ville (filter (\<lambda>f. fr_id f = ''a@x.com'') trois_favoris) = [''Paris'', ''Lyon'', ''Nice'']
   \<and> fst (ajouterFavori None None trois_favoris ''a@x.com'' ''paris'') \<noteq> Inl Duplicate"
  by (simp add: ajouterFavori_def trois_favoris_def QuotaExceeded_def Duplicate_def)

text \<open>
  Claim C6, as the code has it, for names made of code units below 256 (the strings of
  this theory). In the service, for a user with fewer than three favorites, adding a
  place whose name differs from one of the user's favorites only in letter case fails
  with the duplicate error and inserts nothing, once the select has succeeded. The API
  compares no names: it reports a duplicate, with HTTP status 400 and nothing inserted,
  when the store refuses the row with code 23505.
\<close>

theorem add_case_variant_duplicate:
  assumes "length (filter (\<lambda>f. fr_id f = userId) favoris) < 3"
    and "f \<in> set favoris" and "fr_id f = userId"
    and "differs_only_in_case ville (fr_ville f)"
    and "test_fault faults = None" and "v \<noteq> []"
    and "quota_check (count_fault faults) favorie postUserId = None"
    and "insert_fault faults = Some e" and "pg_code e = ''23505''"
  shows "ajouterFavori None ins favoris userId ville = (Inl Duplicate, favoris)
       \<and> favoris_POST faults new_id now favorie postUserId (Some v)
         = (respond 400 [(''error'', JStr (''Cette ville est d'' @ [e_acute] @ ''j'' @ [a_grave] @ '' en favoris'')),
                         (''ville'', JStr v)], favorie)"
proof -
  have "toLowerCase (fr_ville f) = toLowerCase ville"
    using assms(4) by (simp add: differs_only_in_case_lower)
  moreover have "f \<in> set (filter (\<lambda>f. fr_id f = userId) favoris)"
    using assms(2,3) by simp
  ultimately have "list_ex (\<lambda>f. toLowerCase (fr_ville f) = toLowerCase ville)
      (filter (\<lambda>f. fr_id f = userId) favoris)"
    unfolding list_ex_iff by blast
  then have service: "ajouterFavori None ins favoris userId ville = (Inl Duplicate, favoris)"
    using assms(1) by (simp add: ajouterFavori_def Let_def)
  have api: "favoris_POST faults new_id now favorie postUserId (Some v)
         = (respond 400 [(''error'', JStr (''Cette ville est d'' @ [e_acute] @ ''j'' @ [a_grave] @ '' en favoris'')),
                         (''ville'', JStr v)], favorie)"
    using assms(5-9) by (simp add: favoris_POST_ville insert_favori_def)
  show ?thesis using service api by simp
qed

lemma paris_case: "differs_only_in_case ''paris'' ''Paris''"
  by (simp add: differs_only_in_case_def same_letter_def is_upper_def)

theorem add_case_variant_duplicate_witness:
  "length (filter (\<lambda>f. fr_id f = ''a@x.com'') deux_favoris) < 3
   \<and> \<lparr>fr_id = ''a@x.com'', fr_ville = ''Paris''\<rparr> \<in> set deux_favoris
   \<and> differs_only_in_case ''paris'' ''Paris''
   \<and> test_fault store_refuses_duplicate = None
   \<and> quota_check (count_fault store_refuses_duplicate) un_favorie (Some ''u1'') = None
   \<and> insert_fault store_refuses_duplicate = Some unique_violation
   \<and> pg_code unique_violation = ''23505''
   \<and> ajouterFavori None None deux_favoris ''a@x.com'' ''paris'' = (Inl Duplicate, deux_favoris)
   \<and> favoris_POST store_refuses_duplicate 2 1741000003000 un_favorie (Some ''u1'') (Some ''paris'')
       = (respond 400 [(''error'', JStr (''Cette ville est d'' @ [e_acute] @ ''j'' @ [a_grave] @ '' en favoris'')),
                       (''ville'', JStr ''paris'')], un_favorie)"
proof -
  have h: "length (filter (\<lambda>f. fr_id f = ''a@x.com'') deux_favoris) < 3"
    "\<lparr>fr_id = ''a@x.com'', fr_ville = ''Paris''\<rparr> \<in> set deux_favoris"
    "test_fault store_refuses_duplicate = None"
    "quota_check (count_fault store_refuses_duplicate) un_favorie (Some ''u1'') = None"
    "insert_fault store_refuses_duplicate = Some unique_violation"
    "pg_code unique_violation = ''23505''"
    by (simp_all add: deux_favoris_def store_refuses_duplicate_def unique_violation_def
        quota_check_def un_favorie_def falsy_def)
  show ?thesis
    using h paris_case
      add_case_variant_duplicate [of "''a@x.com''" deux_favoris "\<lparr>fr_id = ''a@x.com'', fr_ville = ''Paris''\<rparr>" "''paris''"
            store_refuses_duplicate "''paris''" un_favorie "Some ''u1''" unique_violation
            None 2 1741000003000]
    by simp
qed

text \<open>
  The claim as the specification words it fails in the API when the store accepts the
  row: the user has the favorite \<open>Paris\<close>, and \<open>paris\<close> is inserted with status 201.
\<close>

theorem post_case_variant_is_inserted:
  "length (filter (\<lambda>f. fav_user_id f = Some ''u1'') un_favorie) < 3
   \<and> map fav_ville (filter (\<lambda>f. fav_user_id f = Some ''u1'') un_favorie) = [''Paris'']
   \<and> differs_only_in_case ''paris'' ''Paris''
   \<and> status_code (fst (favoris_POST no_faults 2 1741000003000 un_favorie (Some ''u1'') (Some ''paris''))) = 201
   \<and> snd (favoris_POST no_faults 2 1741000003000 un_favorie (Some ''u1'') (Some ''paris''))
       = un_favorie @ [\<lparr>fav_id = 2, fav_user_id = Some ''u1'', fav_ville = ''paris'',
                        fav_created_at = 1741000003000\<rparr>]"
  using paris_case
  by (simp add: favoris_POST_def quota_check_def insert_favori_def no_faults_def un_favorie_def
      falsy_def respond_def Let_def)

text \<open>
  Claim C10. A \<^verbatim>\<open>POST\<close> with a place name and no user id (missing or empty) goes
  straight to the insert once the table test has succeeded: the quota check answers
  nothing for such a request, whatever the table holds, and when the store accepts the
  row it is appended without an owner and the answer is 201.
\<close>

theorem post_without_userId_skips_quota:
  assumes "test_fault faults = None" and "falsy postUserId" and "v \<noteq> []"
  shows "favoris_POST faults new_id now favorie postUserId (Some v)
         = insert_favori (insert_fault faults) new_id now favorie postUserId v
       \<and> (insert_fault faults = None \<longrightarrow>
            favoris_POST faults new_id now favorie postUserId (Some v)
            = (respond 201 [(''data'', json_of_favorie
                  \<lparr>fav_id = new_id, fav_user_id = None, fav_ville = v, fav_created_at = now\<rparr>)],
               favorie @ [\<lparr>fav_id = new_id, fav_user_id = None, fav_ville = v, fav_created_at = now\<rparr>]))
       \<and> (\<forall>fault rows. quota_check fault rows postUserId = None)"
  using assms
  by (simp add: favoris_POST_ville quota_check_anonymous insert_favori_def Let_def)

theorem post_without_userId_skips_quota_witness:
  "test_fault no_faults = None \<and> falsy None \<and> ''Marseille'' \<noteq> [] \<and> insert_fault no_faults = None
   \<and> length trois_favorie = 3
   \<and> favoris_POST no_faults 4 1741000003000 trois_favorie None (Some ''Marseille'')
       = (respond 201 [(''data'', json_of_favorie
             \<lparr>fav_id = 4, fav_user_id = None, fav_ville = ''Marseille'', fav_created_at = 1741000003000\<rparr>)],
          trois_favorie @ [\<lparr>fav_id = 4, fav_user_id = None, fav_ville = ''Marseille'',
                            fav_created_at = 1741000003000\<rparr>])"
proof -
  have h: "test_fault no_faults = None" "falsy None" "insert_fault no_faults = None"
    "length trois_favorie = 3"
    by (simp_all add: no_faults_def falsy_def trois_favorie_def)
  show ?thesis
    using h post_without_userId_skips_quota [of no_faults None "''Marseille''" 4 1741000003000 trois_favorie]
    by (simp add: insert_favori_def Let_def)
qed

section \<open>Properties of the checkout metadata\<close>

lemma checkout_request_Inr:
  assumes "checkout_request baseUrl now now_iso method userId userEmail = Inr params"
  obtains u e where "method = ''POST''" "userId = Some u" "u \<noteq> []" "userEmail = Some e" "e \<noteq> []"
    "emailRegex_test e" "params = session_params baseUrl now now_iso u e"
  using assms
  by (auto simp: checkout_request_def falsy_def split: if_splits option.splits)

text \<open>
  Claim C9. A request that the creation endpoint accepts is stored by the processor with
  the user id under the metadata key \<open>userId\<close> and with the user's email as customer
  email. The confirmation reads the key \<open>user_id\<close>, which such a session does not have,
  so the user it resolves is exactly what the lookup by customer email finds: the id of
  the single row with that email, or nobody.
\<close>

theorem created_session_resolves_by_email:
  assumes "checkout_request baseUrl now now_iso method userId userEmail = Inr params"
    and "created_from params session"
  shows "map_of (metadata session) ''userId'' = userId
       \<and> map_of (metadata session) ''user_id'' = None
       \<and> customer_email session = userEmail
       \<and> resolve_user read_fault db session
           = (case select_user_by_email read_fault db (cp_customer_email params) of
                Inr userData \<Rightarrow> Some (uid userData)
              | Inl error \<Rightarrow> None)"
proof -
  from assms(1) obtain u e where r: "userId = Some u" "userEmail = Some e" "e \<noteq> []"
    "params = session_params baseUrl now now_iso u e"
    by (rule checkout_request_Inr)
  have m: "metadata session = cp_metadata params" "customer_email session = Some (cp_customer_email params)"
    using assms(2) by (simp_all add: created_from_def)
  have p: "cp_metadata params = [(''userId'', u), (''userEmail'', e),
        (''purchaseType'', ''premium_monthly''), (''timestamp'', now_iso)]"
    "cp_customer_email params = e"
    by (simp_all add: r(4) session_params_def)
  have keys: "map_of (metadata session) ''userId'' = Some u" "map_of (metadata session) ''user_id'' = None"
    by (simp_all add: m p)
  have res: "resolve_user read_fault db session
           = (case select_user_by_email read_fault db e of
                Inr userData \<Rightarrow> Some (uid userData)
              | Inl error \<Rightarrow> None)"
    using r(3) by (simp add: resolve_user_def keys m p falsy_def split: sum.splits)
  show ?thesis
    using keys res by (simp add: r(1,2) m p)
qed

lemma email_ok: "emailRegex_test ''a@x.com''"
  by (simp add: emailRegex_test_def is_space_def Let_def upt_rec)

theorem created_session_resolves_by_email_witness:
  "checkout_request ''http://localhost:3000'' 1742036400000 ''2025-03-15T11:00:00.000Z'' ''POST''
      (Some ''u1'') (Some ''a@x.com'')
     = Inr (session_params ''http://localhost:3000'' 1742036400000 ''2025-03-15T11:00:00.000Z'' ''u1'' ''a@x.com'')
   \<and> created_from (session_params ''http://localhost:3000'' 1742036400000 ''2025-03-15T11:00:00.000Z'' ''u1'' ''a@x.com'')
        app_session
   \<and> map_of (metadata app_session) ''userId'' = Some ''u1''
   \<and> map_of (metadata app_session) ''user_id'' = None
   \<and> resolve_user None expired_directory app_session = Some ''u1''
   \<and> select_user_by_email None expired_directory ''a@x.com'' = Inr expired_user"
proof -
  have a: "checkout_request ''http://localhost:3000'' 1742036400000 ''2025-03-15T11:00:00.000Z'' ''POST''
      (Some ''u1'') (Some ''a@x.com'')
     = Inr (session_params ''http://localhost:3000'' 1742036400000 ''2025-03-15T11:00:00.000Z'' ''u1'' ''a@x.com'')"
    using email_ok by (simp add: checkout_request_def falsy_def)
  have b: "created_from (session_params ''http://localhost:3000'' 1742036400000 ''2025-03-15T11:00:00.000Z'' ''u1'' ''a@x.com'')
        app_session"
    by (simp add: created_from_def session_params_def app_session_def)
  have c: "select_user_by_email None expired_directory ''a@x.com'' = Inr expired_user"
    by (simp add: select_user_by_email_def expired_directory_def expired_user_def single_def)
  have d: "cp_customer_email (session_params ''http://localhost:3000'' 1742036400000 ''2025-03-15T11:00:00.000Z'' ''u1'' ''a@x.com'') = ''a@x.com''"
    by (simp add: session_params_def)
  show ?thesis
    using a b c d created_session_resolves_by_email [OF a b, of None expired_directory]
    by (simp add: expired_user_def)
qed

section \<open>Properties of the auth facade\<close>

lemma str_includes_append: "str_includes s sub \<Longrightarrow> str_includes (p @ s) sub"
  by (induction p) simp_all

lemma after_call_demo: "after_call True c = True"
  by (cases c) (simp_all add: signUp_def signUp_catch_def split: sum.splits)

lemma after_calls_demo: "after_calls True calls = True"
  unfolding after_calls_def by (induction calls) (simp_all add: after_call_demo)

text \<open>
  Claim C7. In live mode, when the provider answers a registration with an error whose
  message indicates an unprocessable request (it contains \<open>422\<close>) and is not one of
  the user-facing failures the facade reports in its own words (an email already
  registered, sign-up disabled, the email rate limit), \<^verbatim>\<open>signUp\<close> returns what the
  demo backend answers to the same email, password and profile, and the flag
  \<open>isDemoMode\<close> is set; after any further calls of the facade the flag is still set.
\<close>

theorem signUp_falls_back_to_demo:
  assumes "str_includes m ''422''"
    and "\<not> str_includes m ''User already registered''"
    and "\<not> str_includes m ''Signup is disabled''"
    and "\<not> str_includes m ''Email rate limit exceeded''"
  shows "signUp (Fails (Some m)) False now email_address password userData
         = (from_demo (demo_signUp now email_address password userData), True)
       \<and> after_calls (snd (signUp (Fails (Some m)) False now email_address password userData)) calls = True"
proof -
  have "inscription_error (Some m) = ''Erreur d'' @ [CHR 0x27] @ ''inscription: '' @ m"
    using assms(2-4) by (simp add: inscription_error_def message_includes_def)
  then have "message_includes (Some (inscription_error (Some m))) ''422''"
    using str_includes_append [OF assms(1), of "''Erreur d'' @ [CHR 0x27] @ ''inscription: ''"]
    by (simp add: message_includes_def)
  then have "signUp (Fails (Some m)) False now email_address password userData
         = (from_demo (demo_signUp now email_address password userData), True)"
    by (simp add: signUp_def signUp_catch_def)
  then show ?thesis
    by (simp add: after_calls_demo)
qed

theorem signUp_falls_back_to_demo_witness:
  "str_includes ''Request failed with status code 422'' ''422''
   \<and> su_error (fst (signUp (Fails (Some ''Request failed with status code 422'')) False 1742036400000
        ''new@x.com'' ''secret1'' new_profile)) = ENull
   \<and> map_option (map_option au_email) (su_data (fst (signUp (Fails (Some ''Request failed with status code 422''))
        False 1742036400000 ''new@x.com'' ''secret1'' new_profile))) = Some (Some ''new@x.com'')
   \<and> map_option (map_option au_metadata) (su_data (fst (signUp (Fails (Some ''Request failed with status code 422''))
        False 1742036400000 ''new@x.com'' ''secret1'' new_profile))) = Some (Some new_profile)
   \<and> snd (signUp (Fails (Some ''Request failed with status code 422'')) False 1742036400000
        ''new@x.com'' ''secret1'' new_profile) = True
   \<and> after_calls (snd (signUp (Fails (Some ''Request failed with status code 422'')) False 1742036400000
        ''new@x.com'' ''secret1'' new_profile))
        [SignOut, SignUp (Succeeds None) 1742036500000 ''other@x.com'' ''secret2'' new_profile,
         SignIn ''demo@example.com'' ''demo123''] = True"
proof -
  have h: "str_includes ''Request failed with status code 422'' ''422''"
    "\<not> str_includes ''Request failed with status code 422'' ''User already registered''"
    "\<not> str_includes ''Request failed with status code 422'' ''Signup is disabled''"
    "\<not> str_includes ''Request failed with status code 422'' ''Email rate limit exceeded''"
    by simp_all
  note c = signUp_falls_back_to_demo [OF h, of 1742036400000 "''new@x.com''" "''secret1''" new_profile
        "[SignOut, SignUp (Succeeds None) 1742036500000 ''other@x.com'' ''secret2'' new_profile,
          SignIn ''demo@example.com'' ''demo123'']"]
  have s: "signUp (Fails (Some ''Request failed with status code 422'')) False 1742036400000
        ''new@x.com'' ''secret1'' new_profile
      = (from_demo (demo_signUp 1742036400000 ''new@x.com'' ''secret1'' new_profile), True)"
    using c by (rule conjunct1)
  have a: "after_calls (snd (signUp (Fails (Some ''Request failed with status code 422'')) False 1742036400000
        ''new@x.com'' ''secret1'' new_profile))
        [SignOut, SignUp (Succeeds None) 1742036500000 ''other@x.com'' ''secret2'' new_profile,
         SignIn ''demo@example.com'' ''demo123''] = True"
    using c by (rule conjunct2)
  have d: "demo_signUp 1742036400000 ''new@x.com'' ''secret1'' new_profile
      = Inr \<lparr>au_id = ''demo-user-'' @ digits 1742036400000, au_email = ''new@x.com'',
              au_metadata = new_profile, au_created_at = 1742036400000\<rparr>"
    by (simp add: demo_signUp_def new_profile_def del: digits.simps)
  show ?thesis
    using h(1) a unfolding s d fst_conv snd_conv
    by (simp add: from_demo_def del: digits.simps)
qed

end
